theory Spec2Isabelle
  imports Main "HOL-Library.Word" "HOL-Library.Sublist"
begin

section \<open>Wire data\<close>

type_synonym byte = "8 word"

text \<open>
  A plain struct that is copied to and from the wire as raw memory: its \<open>sizeof\<close>, its
  object representation, and the value a \<open>reinterpret_cast\<close> reads back from a buffer.
  The layouts live in headers outside this development, so they are parameters here and
  every theorem holds for all of them.
\<close>

record 'a pod =
  sizeof :: nat
  to_bytes :: "'a \<Rightarrow> byte list"
  from_bytes :: "byte list \<Rightarrow> 'a"

text \<open>\<open>T::Header\<close>: the command kind and the 32-bit command identifier.\<close>

record 'c header =
  command :: 'c
  command_id :: "32 word"

text \<open>
  The template parameter \<open>T\<close> of the TCP operations: \<open>T::kCommand\<close>, the layouts of
  \<open>T::Header\<close>, \<open>T::Request\<close> and \<open>T::Response\<close>, and the constructor of
  \<open>T::Request\<close> (from the arguments that \<open>tcpSendRequest\<close> forwards to it).
\<close>

record ('c, 'a, 'q, 'r) command_type =
  kCommand :: 'c
  Header :: "'c header pod"
  Request :: "'q pod"
  Response :: "'r pod"
  Request_ctor :: "'a \<Rightarrow> 'q"

section \<open>Exceptions\<close>

text \<open>A \<open>Poco::Exception\<close>, with the text of its \<open>what()\<close>.\<close>

datatype poco_exception = PocoException (what: string)

text \<open>The exceptions of the library, each with its message.\<close>

datatype exception =
    NetworkException string
  | ProtocolException string
  | IncompatibleVersionException string
  | ModelException string

section \<open>The sockets of the platform\<close>

text \<open>
  \<open>Poco::Net::StreamSocket\<close>, as the client sees it. \<open>rx\<close> holds the bytes that have
  arrived and are not read yet (what \<open>available()\<close> counts); \<open>incoming\<close> holds, in
  order, the bytes that will still arrive before the connection ends or the receive
  timeout expires (what a blocking read can wait for); \<open>tx\<close> holds the bytes written so
  far; \<open>send_fault\<close> is the exception that a write raises, if the connection is broken.
\<close>

record stream_socket =
  rx :: "byte list"
  incoming :: "byte list"
  tx :: "byte list"
  send_fault :: "poco_exception option"

text \<open>
  \<open>Poco::Net::DatagramSocket\<close>: \<open>queue\<close> holds the datagrams that have arrived and are
  not read yet, oldest first; \<open>arriving\<close> holds, in order, the datagrams that will still
  arrive within the receive timeout.
\<close>

record datagram_socket =
  queue :: "byte list list"
  arriving :: "byte list list"

text \<open>\<open>sendBytes\<close> on a blocking stream socket: all bytes are written, or it throws.\<close>

definition sendBytes :: "stream_socket \<Rightarrow> byte list \<Rightarrow> poco_exception + stream_socket" where
  "sendBytes s bs =
     (case send_fault s of
        Some e \<Rightarrow> Inl e
      | None \<Rightarrow> Inr (s\<lparr>tx := tx s @ bs\<rparr>))"

text \<open>\<open>poll(0, SELECT_READ)\<close>: whether a read would find data now.\<close>

definition poll_read :: "stream_socket \<Rightarrow> bool" where
  "poll_read s = (rx s \<noteq> [])"

text \<open>\<open>available()\<close> on a stream socket: the number of bytes that can be read now.\<close>

definition available :: "stream_socket \<Rightarrow> nat" where
  "available s = length (rx s)"

text \<open>
  \<open>receiveBytes(buffer, n, MSG_PEEK)\<close>: copies up to \<open>n\<close> of the bytes that have arrived
  and leaves them on the socket.
\<close>

definition receiveBytes_peek :: "stream_socket \<Rightarrow> nat \<Rightarrow> poco_exception + byte list" where
  "receiveBytes_peek s n = Inr (take n (rx s))"

text \<open>
  \<open>available()\<close> on a datagram socket (\<open>FIONREAD\<close> on Linux): the size of the next
  datagram of the queue, 0 when there is none.
\<close>

definition udp_available :: "datagram_socket \<Rightarrow> nat" where
  "udp_available s = (case queue s of [] \<Rightarrow> 0 | d # ds \<Rightarrow> length d)"

text \<open>
  \<open>receiveFrom(buffer, n, address)\<close>: removes the oldest datagram (waiting for the next
  one to arrive when none is queued, until the timeout throws) and copies its first \<open>n\<close>
  bytes; the rest of a longer datagram is discarded, as \<open>recvfrom\<close> does. The result is
  the bytes copied, whose number is the call's return value.
\<close>

definition receiveFrom ::
  "datagram_socket \<Rightarrow> nat \<Rightarrow> poco_exception + (byte list \<times> datagram_socket)" where
  "receiveFrom s n =
     (case queue s of
        d # ds \<Rightarrow> Inr (take n d, s\<lparr>queue := ds\<rparr>)
      | [] \<Rightarrow>
          (case arriving s of
             d # ds \<Rightarrow> Inr (take n d, s\<lparr>arriving := ds\<rparr>)
           | [] \<Rightarrow> Inl (PocoException ''Timeout'')))"

section \<open>Network\<close>

text \<open>
  The members of \<open>class Network\<close>: \<open>tcp_socket_\<close>, \<open>udp_socket_\<close>, \<open>udp_port_\<close> and
  \<open>command_id_\<close> (a name cannot end in an underscore here, so each has the prefix
  \<open>net_\<close> instead). The two mutexes are not state of the model: every
  operation below runs as one step, which is what holding the channel's lock for the
  whole operation gives; the one operation that releases its lock between attempts
  (\<open>tcpBlockingReceiveResponse\<close>) takes the events that happen meanwhile as an argument.
\<close>

record Network =
  net_tcp_socket :: stream_socket
  net_udp_socket :: datagram_socket
  net_udp_port :: "16 word"
  net_command_id :: "32 word"

text \<open>
  A freshly constructed \<open>Network\<close>: the sockets as the constructor opened them, and the
  member initialiser \<open>command_id_{0}\<close>.
\<close>

definition Network_new :: "stream_socket \<Rightarrow> datagram_socket \<Rightarrow> 16 word \<Rightarrow> Network" where
  "Network_new tcp udp port =
     \<lparr>net_tcp_socket = tcp, net_udp_socket = udp, net_udp_port = port, net_command_id = 0\<rparr>"

text \<open>
  Modelled from the spec: \<open>udpPort\<close> is declared in the class and defined in a file that is
  not part of this development. The spec: the streaming channel "discovers its own
  ephemeral local port at bind time, which must be communicated to the server during
  connection setup"; that port is the member \<open>udp_port_\<close>.
\<close>

definition udpPort :: "Network \<Rightarrow> 16 word" where
  "udpPort net = net_udp_port net"

subsection \<open>Sending a request\<close>

text \<open>
  \<open>tcpSendRequest\<close>: the request is the header \<open>(T::kCommand, command_id_++)\<close> followed
  by the payload built from the arguments; it is written in one \<open>sendBytes\<close> and the
  identifier of its header is returned. The counter is incremented while the request is
  built, before the write. A \<open>Poco::Exception\<close> becomes a \<open>NetworkException\<close>.
\<close>

definition tcpSendRequest ::
  "('c, 'a, 'q, 'r) command_type \<Rightarrow> 'a \<Rightarrow> Network \<Rightarrow> exception + (32 word \<times> Network)" where
  "tcpSendRequest T args net =
     (let request_header = \<lparr>command = kCommand T, command_id = net_command_id net\<rparr>;
          net1 = net\<lparr>net_command_id := net_command_id net + 1\<rparr>;
          request = to_bytes (Header T) request_header
                    @ to_bytes (Request T) (Request_ctor T args)
      in case sendBytes (net_tcp_socket net1) request of
           Inl e \<Rightarrow> Inl (NetworkException (''libfranka: TCP send bytes: '' @ what e))
         | Inr sock \<Rightarrow> Inr (command_id request_header, net1\<lparr>net_tcp_socket := sock\<rparr>))"

text \<open>
  A caller that sends one request after the other on the same connection, of whatever
  command types: the identifiers returned, in send order. Command types differ in their
  types, so the run holds each call \<open>tcpSendRequest<T>(args...)\<close> with its command type and
  arguments applied, as a function of the network. The first exception ends the run.
\<close>

type_synonym send_call = "Network \<Rightarrow> exception + (32 word \<times> Network)"

fun tcpSendRequests :: "send_call list \<Rightarrow> Network \<Rightarrow> exception + (32 word list \<times> Network)" where
  "tcpSendRequests [] net = Inr ([], net)"
| "tcpSendRequests (call # rest) net =
     (case call net of
        Inl e \<Rightarrow> Inl e
      | Inr (cid, net1) \<Rightarrow>
          (case tcpSendRequests rest net1 of
             Inl e \<Rightarrow> Inl e
           | Inr (cids, net2) \<Rightarrow> Inr (cid # cids, net2)))"

text \<open>
  The function is a call of \<open>tcpSendRequest\<close>. What a call does depends on its command
  type and arguments only through the bytes of the request, so it is enough to range
  over command types without content of their own; the call of any command type with any
  arguments is among them (lemma \<open>tcpSendRequest_is_call\<close> below).
\<close>

definition is_tcpSendRequest :: "send_call \<Rightarrow> bool" where
  "is_tcpSendRequest call =
     (\<exists>T :: (unit, unit, unit, unit) command_type. call = tcpSendRequest T ())"

subsection \<open>The streaming channel\<close>

text \<open>
  \<open>udpBlockingReceiveUnsafe<T>\<close>: one \<open>receiveFrom\<close> into a buffer of \<open>sizeof(T)\<close> bytes;
  a byte count other than the buffer's size is a \<open>ProtocolException\<close>, and a
  \<open>Poco::Exception\<close> becomes a \<open>NetworkException\<close>.
\<close>

definition udpBlockingReceiveUnsafe :: "'t pod \<Rightarrow> Network \<Rightarrow> exception + ('t \<times> Network)" where
  "udpBlockingReceiveUnsafe T net =
     (case receiveFrom (net_udp_socket net) (sizeof T) of
        Inl e \<Rightarrow> Inl (NetworkException (''libfranka: UDP receive: '' @ what e))
      | Inr (buffer, sock) \<Rightarrow>
          if length buffer \<noteq> sizeof T
          then Inl (ProtocolException ''libfranka: incorrect object size'')
          else Inr (from_bytes T buffer, net\<lparr>net_udp_socket := sock\<rparr>))"

definition udpBlockingReceive :: "'t pod \<Rightarrow> Network \<Rightarrow> exception + ('t \<times> Network)" where
  "udpBlockingReceive T net = udpBlockingReceiveUnsafe T net"

text \<open>
  \<open>udpReceive<T>(data)\<close>: receives only when \<open>available()\<close> reports at least \<open>sizeof(T)\<close>
  bytes. The result is the returned flag and the value of \<open>*data\<close> after the call.
\<close>

definition udpReceive :: "'t pod \<Rightarrow> 't \<Rightarrow> Network \<Rightarrow> exception + ((bool \<times> 't) \<times> Network)" where
  "udpReceive T data net =
     (if sizeof T \<le> udp_available (net_udp_socket net)
      then (case udpBlockingReceiveUnsafe T net of
              Inl e \<Rightarrow> Inl e
            | Inr (v, net1) \<Rightarrow> Inr ((True, v), net1))
      else Inr ((False, data), net))"

subsection \<open>Receiving a response\<close>

text \<open>
  \<open>tcpPeekHeaderUnsafe\<close>: when the socket is readable and holds at least a header, the
  header is copied with \<open>MSG_PEEK\<close> and the call returns true; otherwise it returns false.
  The result is \<open>Some\<close> of the header written through the pointer for true, \<open>None\<close> for
  false.
\<close>

definition tcpPeekHeaderUnsafe ::
  "('c, 'a, 'q, 'r) command_type \<Rightarrow> Network \<Rightarrow> exception + 'c header option" where
  "tcpPeekHeaderUnsafe T net =
     (if poll_read (net_tcp_socket net)
         \<and> sizeof (Header T) \<le> available (net_tcp_socket net)
      then (case receiveBytes_peek (net_tcp_socket net) (sizeof (Header T)) of
              Inl e \<Rightarrow> Inl (NetworkException (''libfranka: '' @ what e))
            | Inr buffer \<Rightarrow>
                if length buffer \<noteq> sizeof (Header T)
                then Inl (NetworkException ''libfranka: Could not read data.'')
                else Inr (Some (from_bytes (Header T) buffer)))
      else Inr None)"

text \<open>
  Modelled from the spec: \<open>tcpReceiveIntoBufferUnsafe\<close> is declared in the class and
  defined in a file that is not part of this development. The spec: the caller reads a
  declared number of raw bytes off the reliable channel into a buffer, and "a short read
  (fewer bytes than the declared frame size) is always a transport failure, never
  silently retried". The call blocks until \<open>read_size\<close> bytes have been read: it takes them
  from the bytes that have arrived and, after those, from the ones that still arrive.
\<close>

definition tcpReceiveIntoBufferUnsafe :: "nat \<Rightarrow> Network \<Rightarrow> exception + (byte list \<times> Network)" where
  "tcpReceiveIntoBufferUnsafe read_size net =
     (let sock = net_tcp_socket net in
      if length (rx sock @ incoming sock) < read_size
      then Inl (NetworkException ''libfranka: FRANKA connection closed'')
      else Inr (take read_size (rx sock @ incoming sock),
                net\<lparr>net_tcp_socket :=
                      sock\<lparr>rx := drop read_size (rx sock),
                           incoming := drop (read_size - length (rx sock)) (incoming sock)\<rparr>\<rparr>))"

text \<open>
  Modelled from the spec: \<open>tcpReceiveIntoBuffer\<close>, the public variant, defined in the same
  missing file; it is the call above under the channel's lock.
\<close>

definition tcpReceiveIntoBuffer :: "nat \<Rightarrow> Network \<Rightarrow> exception + (byte list \<times> Network)" where
  "tcpReceiveIntoBuffer read_size net = tcpReceiveIntoBufferUnsafe read_size net"

text \<open>
  \<open>tcpReceiveResponse<T>(command_id, handler)\<close>: one attempt. The handler is a function on
  the state it captures; the result is the returned flag, that state after the call, and
  the network.
\<close>

definition tcpReceiveResponse ::
  "('c, 'a, 'q, 'r) command_type \<Rightarrow> 32 word \<Rightarrow> ('r \<Rightarrow> 'h \<Rightarrow> 'h) \<Rightarrow> 'h \<Rightarrow> Network
     \<Rightarrow> exception + (bool \<times> 'h \<times> Network)" where
  "tcpReceiveResponse T cid handler h net =
     (case tcpPeekHeaderUnsafe T net of
        Inl e \<Rightarrow> Inl e
      | Inr None \<Rightarrow> Inr (False, h, net)
      | Inr (Some response_header) \<Rightarrow>
          if command response_header \<noteq> kCommand T \<or> command_id response_header \<noteq> cid
          then Inr (False, h, net)
          else (case tcpReceiveIntoBufferUnsafe (sizeof (Header T) + sizeof (Response T)) net of
                  Inl e \<Rightarrow> Inl e
                | Inr (response, net1) \<Rightarrow>
                    Inr (True,
                         handler (from_bytes (Response T) (drop (sizeof (Header T)) response)) h,
                         net1)))"

text \<open>
  What happens on the reliable channel while \<open>tcpBlockingReceiveResponse\<close> polls or has
  released the lock: more bytes of the stream arrive, or another caller that holds the
  lock reads bytes off the stream.
\<close>

datatype tcp_event = Arrives nat | OtherReads nat

fun tcp_step :: "tcp_event \<Rightarrow> Network \<Rightarrow> Network" where
  "tcp_step (Arrives k) net =
     (let sock = net_tcp_socket net in
      net\<lparr>net_tcp_socket :=
            sock\<lparr>rx := rx sock @ take k (incoming sock), incoming := drop k (incoming sock)\<rparr>\<rparr>)"
| "tcp_step (OtherReads k) net =
     (let sock = net_tcp_socket net in
      net\<lparr>net_tcp_socket := sock\<lparr>rx := drop k (rx sock)\<rparr>\<rparr>)"

text \<open>
  \<open>tcpBlockingReceiveResponse<T>(command_id)\<close>: the loop locks, polls, peeks, and leaves
  when the peeked header has the command and the identifier; otherwise it unlocks and
  starts over. Each round sees the channel after the next event of the list. The loop has
  no exit of its own, so a call that is still waiting when the events are used up has
  not returned: \<open>None\<close>. After the loop the whole response is read and its payload
  returned.
\<close>

fun tcpBlockingReceiveResponse ::
  "('c, 'a, 'q, 'r) command_type \<Rightarrow> 32 word \<Rightarrow> tcp_event list \<Rightarrow> Network
     \<Rightarrow> (exception + ('r \<times> Network)) option" where
  "tcpBlockingReceiveResponse T cid [] net = None"
| "tcpBlockingReceiveResponse T cid (ev # evs) net =
     (let net1 = tcp_step ev net in
      case tcpPeekHeaderUnsafe T net1 of
        Inl e \<Rightarrow> Some (Inl e)
      | Inr None \<Rightarrow> tcpBlockingReceiveResponse T cid evs net1
      | Inr (Some response_header) \<Rightarrow>
          if command response_header = kCommand T \<and> command_id response_header = cid
          then (case tcpReceiveIntoBufferUnsafe (sizeof (Header T) + sizeof (Response T)) net1 of
                  Inl e \<Rightarrow> Some (Inl e)
                | Inr (response, net2) \<Rightarrow>
                    Some (Inr (from_bytes (Response T) (drop (sizeof (Header T)) response), net2)))
          else tcpBlockingReceiveResponse T cid evs net1)"

subsection \<open>Version negotiation\<close>

text \<open>
  Modelled from the spec: the request and response of the connect command are declared
  in a header that is not part of this development. The spec: "Connect request fields:
  client-chosen UDP receive port, client protocol version. Connect response fields:
  status (success / incompatible-version / other), negotiated/server version." The
  request is constructed from the UDP port alone (that is the one argument \<open>connect\<close>
  forwards), so the version it carries is the constant of that header, \<open>kVersion\<close> here.
\<close>

datatype Connect_Status = kSuccess | kIncompatibleLibraryVersion | kOtherStatus nat

record Connect_Response =
  status :: Connect_Status
  version :: "16 word"

record Connect_Request =
  request_version :: "16 word"
  request_udp_port :: "16 word"

definition Connect_Request_ctor :: "16 word \<Rightarrow> 16 word \<Rightarrow> Connect_Request" where
  "Connect_Request_ctor kVersion udp_port =
     \<lparr>request_version = kVersion, request_udp_port = udp_port\<rparr>"

text \<open>What \<open>operator<<\<close> writes for an unsigned integer: its decimal digits.\<close>

fun decimal :: "nat \<Rightarrow> string" where
  "decimal n =
     (if n < 10 then [''0123456789'' ! n]
      else decimal (n div 10) @ [''0123456789'' ! (n mod 10)])"

declare decimal.simps [simp del]

text \<open>The message of the exception for an incompatible version; \<open>std::endl\<close> is a line feed.\<close>

definition incompatible_version_message :: "16 word \<Rightarrow> 16 word \<Rightarrow> string" where
  "incompatible_version_message server_version kLibraryVersion =
     ''libfranka: incompatible library version. '' @ [CHR 0x0A]
     @ ''Server version: '' @ decimal (unat server_version) @ [CHR 0x0A]
     @ ''Library version: '' @ decimal (unat kLibraryVersion)"

text \<open>
  \<open>connect<T, kLibraryVersion>(network, ri_version)\<close>: sends the request built from the
  UDP port, waits for its response and switches on the status. The result of a normal
  return is the value stored into \<open>*ri_version\<close> and the network.
\<close>

definition connect ::
  "('c, 16 word, 'q, Connect_Response) command_type \<Rightarrow> 16 word \<Rightarrow> tcp_event list \<Rightarrow> Network
     \<Rightarrow> (exception + (16 word \<times> Network)) option" where
  "connect T kLibraryVersion evs network =
     (case tcpSendRequest T (udpPort network) network of
        Inl e \<Rightarrow> Some (Inl e)
      | Inr (cid, net1) \<Rightarrow>
          (case tcpBlockingReceiveResponse T cid evs net1 of
             None \<Rightarrow> None
           | Some (Inl e) \<Rightarrow> Some (Inl e)
           | Some (Inr (connect_response, net2)) \<Rightarrow>
               (case status connect_response of
                  kIncompatibleLibraryVersion \<Rightarrow>
                    Some (Inl (IncompatibleVersionException
                      (incompatible_version_message (version connect_response) kLibraryVersion)))
                | kSuccess \<Rightarrow> Some (Inr (version connect_response, net2))
                | kOtherStatus n \<Rightarrow>
                    Some (Inl (ProtocolException
                      ''libfranka gripper: protocol error during gripper connection attempt'')))))"

subsection \<open>The library downloader\<close>

text \<open>
  Modelled from the spec: the types of the \<open>LoadModelLibrary\<close> command are declared in
  the same missing header. The spec: the response carries "{status, declared byte
  count}". The enumerators are the ones the constructor names, and one status that is
  not success.
\<close>

datatype Architecture = kX64

datatype System = kLinux

datatype LoadModelLibrary_Status = LoadModelLibrary_kSuccess | LoadModelLibrary_kError

record LoadModelLibrary_Response =
  load_status :: LoadModelLibrary_Status
  load_size :: "32 word"

text \<open>
  The file behind \<open>path()\<close>. A \<open>std::ofstream\<close> that cannot open or write its file sets
  its failure bits and throws nothing (no exception mask is set), so a write to storage
  that is not writable leaves the file as it was and returns.
\<close>

record storage =
  writable :: bool
  file_content :: "byte list option"

definition ofstream_write :: "storage \<Rightarrow> byte list \<Rightarrow> storage" where
  "ofstream_write disk bs = (if writable disk then disk\<lparr>file_content := Some bs\<rparr> else disk)"

text \<open>
  The constructor \<open>LibraryDownloader(network)\<close>. The buffer has \<open>response.size\<close> bytes; the
  read size is that number cast to \<open>int\<close> and converted to \<open>size_t\<close> (sign-extended to 64
  bits), which is the same number below \<open>2^31\<close>; from \<open>2^31\<close> on the read size exceeds the
  buffer, and the writes past its end are outside this model. The exception classes of
  the library are declared in \<open>franka/exception.h\<close>, outside this development; like
  \<open>Poco::Exception\<close> they derive from \<open>std::exception\<close>, so the handler of the \<open>try\<close> block
  catches whatever the read raises. Memory exhaustion is not modelled.
\<close>

definition LibraryDownloader ::
  "('c, Architecture \<times> System, 'q, LoadModelLibrary_Response) command_type \<Rightarrow> tcp_event list
     \<Rightarrow> Network \<Rightarrow> storage \<Rightarrow> (exception + (Network \<times> storage)) option" where
  "LibraryDownloader T evs network disk =
     (case tcpSendRequest T (kX64, kLinux) network of
        Inl e \<Rightarrow> Some (Inl e)
      | Inr (cid, net1) \<Rightarrow>
          (case tcpBlockingReceiveResponse T cid evs net1 of
             None \<Rightarrow> None
           | Some (Inl e) \<Rightarrow> Some (Inl e)
           | Some (Inr (response, net2)) \<Rightarrow>
               if load_status response \<noteq> LoadModelLibrary_kSuccess
               then Some (Inl (ModelException
                      ''libfranka: Server reports error when loading model library.''))
               else (case tcpReceiveIntoBuffer (unat (scast (load_size response) :: 64 word)) net2 of
                       Inl ex \<Rightarrow> Some (Inl (ModelException ''libfranka: Cannot save model library.''))
                     | Inr (buffer, net3) \<Rightarrow>
                         Some (Inr (net3,
                           ofstream_write disk (take (unat (load_size response)) buffer))))))"

subsection \<open>Notions for the statements about the reliable channel\<close>

text \<open>The channel after a list of events, the first one first.\<close>

fun tcp_steps :: "tcp_event list \<Rightarrow> Network \<Rightarrow> Network" where
  "tcp_steps [] net = net"
| "tcp_steps (ev # evs) net = tcp_steps evs (tcp_step ev net)"

text \<open>
  The bytes that have arrived and are not read yet start with a complete header, and
  that header has the command of \<open>T\<close> and the given identifier.
\<close>

definition head_matches :: "('c, 'a, 'q, 'r) command_type \<Rightarrow> 32 word \<Rightarrow> Network \<Rightarrow> bool" where
  "head_matches T cid net =
     (sizeof (Header T) \<le> length (rx (net_tcp_socket net))
      \<and> command (from_bytes (Header T) (take (sizeof (Header T)) (rx (net_tcp_socket net))))
          = kCommand T
      \<and> command_id (from_bytes (Header T) (take (sizeof (Header T)) (rx (net_tcp_socket net))))
          = cid)"

section \<open>Concrete layouts and states for the examples\<close>

text \<open>
  The theorems below hold for every layout. Their examples run on these: little-endian
  integers, a one-byte command kind, no padding.
\<close>

definition bytes_le16 :: "16 word \<Rightarrow> byte list" where
  "bytes_le16 w = [ucast w, ucast (drop_bit 8 w)]"

definition word_le16 :: "byte list \<Rightarrow> 16 word" where
  "word_le16 bs = (case bs of [b0, b1] \<Rightarrow> ucast b0 + push_bit 8 (ucast b1) | _ \<Rightarrow> 0)"

definition bytes_le32 :: "32 word \<Rightarrow> byte list" where
  "bytes_le32 w = [ucast w, ucast (drop_bit 8 w), ucast (drop_bit 16 w), ucast (drop_bit 24 w)]"

definition word_le32 :: "byte list \<Rightarrow> 32 word" where
  "word_le32 bs =
     (case bs of
        [b0, b1, b2, b3] \<Rightarrow>
          ucast b0 + push_bit 8 (ucast b1) + push_bit 16 (ucast b2) + push_bit 24 (ucast b3)
      | _ \<Rightarrow> 0)"

definition example_Header :: "byte header pod" where
  "example_Header =
     \<lparr>sizeof = 5,
      to_bytes = (\<lambda>h. command h # bytes_le32 (command_id h)),
      from_bytes = (\<lambda>bs. \<lparr>command = (case bs of [] \<Rightarrow> 0 | c # cs \<Rightarrow> c),
                           command_id = word_le32 (drop 1 bs)\<rparr>)\<rparr>"

definition example_Status :: "byte \<Rightarrow> Connect_Status" where
  "example_Status b =
     (if b = 0 then kSuccess else if b = 1 then kIncompatibleLibraryVersion
      else kOtherStatus (unat b))"

definition example_Connect_Response :: "Connect_Response pod" where
  "example_Connect_Response =
     \<lparr>sizeof = 3,
      to_bytes = (\<lambda>r. (case status r of kSuccess \<Rightarrow> 0 | kIncompatibleLibraryVersion \<Rightarrow> 1
                          | kOtherStatus n \<Rightarrow> of_nat n) # bytes_le16 (version r)),
      from_bytes = (\<lambda>bs. \<lparr>status = example_Status (case bs of [] \<Rightarrow> 0 | c # cs \<Rightarrow> c),
                           version = word_le16 (drop 1 bs)\<rparr>)\<rparr>"

definition example_Connect_Request :: "Connect_Request pod" where
  "example_Connect_Request =
     \<lparr>sizeof = 4,
      to_bytes = (\<lambda>q. bytes_le16 (request_version q) @ bytes_le16 (request_udp_port q)),
      from_bytes = (\<lambda>bs. \<lparr>request_version = word_le16 (take 2 bs),
                           request_udp_port = word_le16 (drop 2 bs)\<rparr>)\<rparr>"

text \<open>A connect command of kind 1 whose requests advertise version 3.\<close>

definition example_Connect ::
  "(byte, 16 word, Connect_Request, Connect_Response) command_type" where
  "example_Connect =
     \<lparr>kCommand = 1, Header = example_Header, Request = example_Connect_Request,
      Response = example_Connect_Response, Request_ctor = Connect_Request_ctor 3\<rparr>"

definition example_LoadModelLibrary_Response :: "LoadModelLibrary_Response pod" where
  "example_LoadModelLibrary_Response =
     \<lparr>sizeof = 5,
      to_bytes = (\<lambda>r. (if load_status r = LoadModelLibrary_kSuccess then 0 else 1)
                       # bytes_le32 (load_size r)),
      from_bytes = (\<lambda>bs. \<lparr>load_status = (if (case bs of [] \<Rightarrow> 1 | c # cs \<Rightarrow> c) = (0 :: byte)
                                          then LoadModelLibrary_kSuccess
                                          else LoadModelLibrary_kError),
                           load_size = word_le32 (drop 1 bs)\<rparr>)\<rparr>"

definition example_LoadModelLibrary_Request :: "(Architecture \<times> System) pod" where
  "example_LoadModelLibrary_Request =
     \<lparr>sizeof = 2, to_bytes = (\<lambda>q. [0, 0]), from_bytes = (\<lambda>bs. (kX64, kLinux))\<rparr>"

text \<open>A load command of kind 2.\<close>

definition example_LoadModelLibrary ::
  "(byte, Architecture \<times> System, Architecture \<times> System, LoadModelLibrary_Response)
     command_type" where
  "example_LoadModelLibrary =
     \<lparr>kCommand = 2, Header = example_Header, Request = example_LoadModelLibrary_Request,
      Response = example_LoadModelLibrary_Response, Request_ctor = (\<lambda>args. args)\<rparr>"

text \<open>A two-byte state snapshot.\<close>

definition example_State :: "16 word pod" where
  "example_State = \<lparr>sizeof = 2, to_bytes = bytes_le16, from_bytes = word_le16\<rparr>"

text \<open>A connected stream socket that holds the given unread bytes, and more to come.\<close>

definition example_tcp :: "byte list \<Rightarrow> byte list \<Rightarrow> stream_socket" where
  "example_tcp arrived later = \<lparr>rx = arrived, incoming = later, tx = [], send_fault = None\<rparr>"

definition example_udp :: "byte list list \<Rightarrow> datagram_socket" where
  "example_udp ds = \<lparr>queue = ds, arriving = []\<rparr>"

text \<open>A fresh network on these sockets, with the UDP port 5000.\<close>

definition example_Network :: "byte list \<Rightarrow> byte list \<Rightarrow> byte list list \<Rightarrow> Network" where
  "example_Network arrived later ds = Network_new (example_tcp arrived later) (example_udp ds) 5000"

text \<open>
  The fresh network above after the connect request of \<open>example_Connect\<close> has been
  written: header (kind 1, identifier 0), version 3, port 5000.
\<close>

definition example_Network_connecting :: "byte list \<Rightarrow> byte list \<Rightarrow> Network" where
  "example_Network_connecting arrived later =
     \<lparr>net_tcp_socket =
        \<lparr>rx = arrived, incoming = later, tx = [1, 0, 0, 0, 0, 3, 0, 0x88, 0x13],
         send_fault = None\<rparr>,
      net_udp_socket = example_udp [], net_udp_port = 5000, net_command_id = 1\<rparr>"

text \<open>The identifiers of a run of requests; none when the run raised.\<close>

definition command_ids_of :: "exception + (32 word list \<times> Network) \<Rightarrow> 32 word list" where
  "command_ids_of r = (case r of Inl e \<Rightarrow> [] | Inr (cids, net) \<Rightarrow> cids)"

section \<open>Command identifiers\<close>

lemma tcpSendRequest_Inr_iff:
  "tcpSendRequest T args net = Inr (cid, net') \<longleftrightarrow>
     send_fault (net_tcp_socket net) = None \<and> cid = net_command_id net \<and>
     net' = net\<lparr>net_command_id := net_command_id net + 1,
                net_tcp_socket := (net_tcp_socket net)\<lparr>tx := tx (net_tcp_socket net)
                  @ to_bytes (Header T) \<lparr>command = kCommand T, command_id = net_command_id net\<rparr>
                  @ to_bytes (Request T) (Request_ctor T args)\<rparr>\<rparr>"
  by (auto simp: tcpSendRequest_def Let_def sendBytes_def split: option.splits)

text \<open>Every call of \<open>tcpSendRequest\<close>, of every command type, is a call in the sense above.\<close>

lemma tcpSendRequest_is_call: "is_tcpSendRequest (tcpSendRequest T args)"
proof -
  define T' :: "(unit, unit, unit, unit) command_type" where
    "T' = \<lparr>kCommand = (),
           Header = \<lparr>sizeof = sizeof (Header T),
                     to_bytes = (\<lambda>h. to_bytes (Header T)
                                   \<lparr>command = kCommand T, command_id = command_id h\<rparr>),
                     from_bytes = (\<lambda>bs. \<lparr>command = (), command_id = 0\<rparr>)\<rparr>,
           Request = \<lparr>sizeof = sizeof (Request T),
                      to_bytes = (\<lambda>q. to_bytes (Request T) (Request_ctor T args)),
                      from_bytes = (\<lambda>bs. ())\<rparr>,
           Response = \<lparr>sizeof = 0, to_bytes = (\<lambda>r. []), from_bytes = (\<lambda>bs. ())\<rparr>,
           Request_ctor = (\<lambda>a. ())\<rparr>"
  have "tcpSendRequest T args = tcpSendRequest T' ()"
    by (rule ext) (simp add: tcpSendRequest_def Let_def T'_def split: sum.split)
  then show ?thesis
    unfolding is_tcpSendRequest_def by blast
qed

lemma is_tcpSendRequest_Inr:
  assumes "is_tcpSendRequest call" and "call net = Inr (cid, net')"
  shows "send_fault (net_tcp_socket net) = None \<and> cid = net_command_id net
       \<and> net_command_id net' = net_command_id net + 1
       \<and> send_fault (net_tcp_socket net') = None"
  using assms by (auto simp: is_tcpSendRequest_def tcpSendRequest_Inr_iff)

lemma is_tcpSendRequest_succeeds:
  assumes "is_tcpSendRequest call" and "send_fault (net_tcp_socket net) = None"
  shows "\<exists>net'. call net = Inr (net_command_id net, net')"
  using assms by (auto simp: is_tcpSendRequest_def tcpSendRequest_Inr_iff)

lemma tcpSendRequests_Inr:
  assumes "\<forall>call\<in>set calls. is_tcpSendRequest call"
    and "tcpSendRequests calls net = Inr (cids, net')"
  shows "cids = map (\<lambda>i. net_command_id net + of_nat i) [0..<length calls]
       \<and> net_command_id net' = net_command_id net + of_nat (length calls)"
  using assms
proof (induction calls arbitrary: net cids net')
  case Nil
  then show ?case by simp
next
  case (Cons call calls)
  from Cons.prems(2) obtain cid net1 cids1 where
    s1: "call net = Inr (cid, net1)"
    and s2: "tcpSendRequests calls net1 = Inr (cids1, net')"
    and c: "cids = cid # cids1"
    by (auto split: sum.splits prod.splits)
  from Cons.prems(1) have call: "is_tcpSendRequest call"
    and rest: "\<forall>call\<in>set calls. is_tcpSendRequest call"
    by simp_all
  from is_tcpSendRequest_Inr [OF call s1]
  have cid: "cid = net_command_id net" and n1: "net_command_id net1 = net_command_id net + 1"
    by simp_all
  from Cons.IH [OF rest s2]
  have ids: "cids1 = map (\<lambda>i. net_command_id net + 1 + of_nat i) [0..<length calls]"
    and ctr: "net_command_id net' = net_command_id net + 1 + of_nat (length calls)"
    by (simp_all add: n1)
  have "map (\<lambda>i. net_command_id net + 1 + of_nat i) [0..<length calls]
      = map (\<lambda>i. net_command_id net + of_nat i) (map Suc [0..<length calls])"
    by (simp add: add.assoc)
  with ids have ids': "cids1 = map (\<lambda>i. net_command_id net + of_nat i) (map Suc [0..<length calls])"
    by simp
  have "cids = map (\<lambda>i. net_command_id net + of_nat i) [0..<length (call # calls)]"
    using c cid ids' by (simp add: upt_conv_Cons map_Suc_upt del: upt_Suc)
  moreover have "net_command_id net' = net_command_id net + of_nat (length (call # calls))"
    using ctr by (simp add: add.assoc)
  ultimately show ?case by blast
qed

lemma tcpSendRequests_succeeds:
  assumes "\<forall>call\<in>set calls. is_tcpSendRequest call"
    and "send_fault (net_tcp_socket net) = None"
  shows "\<exists>cids net'. tcpSendRequests calls net = Inr (cids, net')"
  using assms
proof (induction calls arbitrary: net)
  case Nil
  then show ?case by simp
next
  case (Cons call calls)
  from Cons.prems(1) have call: "is_tcpSendRequest call"
    and rest: "\<forall>call\<in>set calls. is_tcpSendRequest call"
    by simp_all
  from is_tcpSendRequest_succeeds [OF call Cons.prems(2)]
  obtain net1 where s1: "call net = Inr (net_command_id net, net1)" by blast
  from is_tcpSendRequest_Inr [OF call s1] have f: "send_fault (net_tcp_socket net1) = None"
    by simp
  from Cons.IH [OF rest f] obtain cids net' where "tcpSendRequests calls net1 = Inr (cids, net')"
    by blast
  with s1 show ?case by simp
qed

lemma command_id_offsets_distinct:
  fixes c :: "32 word"
  assumes "n \<le> 2 ^ 32"
  shows "distinct (map (\<lambda>i. c + of_nat i) [0..<n])"
proof -
  have "inj_on (\<lambda>i. c + (of_nat i :: 32 word)) {0..<n}"
  proof (rule inj_onI)
    fix i j
    assume i: "i \<in> {0..<n}" and j: "j \<in> {0..<n}"
      and eq: "c + (of_nat i :: 32 word) = c + of_nat j"
    from eq have "(of_nat i :: 32 word) = of_nat j" by simp
    then have "take_bit 32 i = take_bit 32 j"
      by (simp add: word_of_nat_eq_iff)
    moreover have "i < 2 ^ 32" "j < 2 ^ 32" using i j assms by auto
    ultimately show "i = j" by (simp add: take_bit_nat_eq_self)
  qed
  then show ?thesis by (simp add: distinct_map)
qed

lemma command_id_offset_unat:
  fixes c :: "32 word"
  assumes "unat c + i < 2 ^ 32"
  shows "unat (c + of_nat i) = unat c + i"
  using assms by (simp add: unat_word_ariths unat_of_nat take_bit_nat_eq_self)

lemma command_ids_of_replicate:
  assumes "is_tcpSendRequest call" and "send_fault (net_tcp_socket net) = None"
  shows "command_ids_of (tcpSendRequests (replicate n call) net)
           = map (\<lambda>i. net_command_id net + of_nat i) [0..<n]"
proof -
  have calls: "\<forall>c\<in>set (replicate n call). is_tcpSendRequest c"
    using assms(1) by simp
  obtain cids net' where r: "tcpSendRequests (replicate n call) net = Inr (cids, net')"
    using tcpSendRequests_succeeds [OF calls assms(2)] by blast
  from tcpSendRequests_Inr [OF calls r] show ?thesis
    by (simp add: r command_ids_of_def)
qed

lemma example_Network_no_fault:
  "send_fault (net_tcp_socket (example_Network arrived later ds)) = None"
  and example_Network_command_id: "net_command_id (example_Network arrived later ds) = 0"
  by (simp_all add: example_Network_def Network_new_def example_tcp_def)

text \<open>
  Claim C10. On a fresh network a request is sent whenever the socket accepts the write,
  and a call that returns there returns the identifier 0. On every network, a call that
  returns has returned the value of the counter, and the bytes it has written are the
  header with the command and that identifier, followed by the request.
\<close>

theorem tcpSendRequest_identifier:
  "(send_fault tcp = None \<longrightarrow>
      (\<exists>net'. tcpSendRequest T args (Network_new tcp udp port) = Inr (0, net')))
   \<and> (\<forall>cid net'. tcpSendRequest T args (Network_new tcp udp port) = Inr (cid, net')
         \<longrightarrow> cid = 0)
   \<and> (\<forall>cid net'. tcpSendRequest T args net = Inr (cid, net') \<longrightarrow>
         cid = net_command_id net
         \<and> tx (net_tcp_socket net') =
             tx (net_tcp_socket net)
             @ to_bytes (Header T) \<lparr>command = kCommand T, command_id = cid\<rparr>
             @ to_bytes (Request T) (Request_ctor T args))"
  by (simp add: tcpSendRequest_Inr_iff Network_new_def)

theorem tcpSendRequest_identifier_witness:
  "send_fault (example_tcp [] []) = None
   \<and> tcpSendRequest example_Connect 5000 (Network_new (example_tcp [] []) (example_udp []) 5000)
       = Inr (0, \<lparr>net_tcp_socket =
                    \<lparr>rx = [], incoming = [], tx = [1, 0, 0, 0, 0, 3, 0, 0x88, 0x13],
                     send_fault = None\<rparr>,
                  net_udp_socket = \<lparr>queue = [], arriving = []\<rparr>,
                  net_udp_port = 5000, net_command_id = 1\<rparr>)
   \<and> to_bytes (Header example_Connect) \<lparr>command = kCommand example_Connect, command_id = 0\<rparr>
       = [1, 0, 0, 0, 0]"
  using tcpSendRequest_identifier [of "example_tcp [] []" example_Connect 5000 "example_udp []" 5000
      "Network_new (example_tcp [] []) (example_udp []) 5000"]
  by (simp add: tcpSendRequest_Inr_iff Network_new_def
        example_tcp_def example_udp_def example_Connect_def example_Header_def
        example_Connect_Request_def Connect_Request_ctor_def bytes_le16_def bytes_le32_def)

text \<open>
  Claim C2, as stated, fails: the counter is a 32-bit unsigned integer. On a fresh
  network, a run of \<open>2^32 + 1\<close> requests returns that many identifiers, and the last one
  is 0, which is the first one again.
\<close>

theorem tcpSendRequests_identifier_reused:
  "length (command_ids_of (tcpSendRequests
             (replicate (2 ^ 32 + 1) (tcpSendRequest example_Connect 5000))
             (example_Network [] [] []))) = 2 ^ 32 + 1
   \<and> command_ids_of (tcpSendRequests
             (replicate (2 ^ 32 + 1) (tcpSendRequest example_Connect 5000))
             (example_Network [] [] [])) ! 0 = 0
   \<and> command_ids_of (tcpSendRequests
             (replicate (2 ^ 32 + 1) (tcpSendRequest example_Connect 5000))
             (example_Network [] [] [])) ! (2 ^ 32) = 0"
proof -
  let ?ids = "command_ids_of (tcpSendRequests
             (replicate (2 ^ 32 + 1) (tcpSendRequest example_Connect 5000))
             (example_Network [] [] []))"
  have "?ids = map (\<lambda>i. net_command_id (example_Network [] [] []) + of_nat i)
                  [0..<2 ^ 32 + 1]"
    by (rule command_ids_of_replicate [OF tcpSendRequest_is_call example_Network_no_fault])
  then have eq: "?ids = map (\<lambda>i. 0 + of_nat i) [0..<2 ^ 32 + 1]"
    unfolding example_Network_command_id .
  have a: "length ?ids = 2 ^ 32 + 1" unfolding eq by (simp only: length_map length_upt diff_zero)
  have "(0::nat) < 2 ^ 32 + 1" by simp
  then have b: "?ids ! 0 = 0" unfolding eq by (simp only: nth_map length_upt diff_zero nth_upt) simp
  have "(2 ^ 32 :: nat) < 2 ^ 32 + 1" by simp
  then have c: "?ids ! (2 ^ 32) = 0" unfolding eq by (simp only: nth_map length_upt diff_zero nth_upt) simp
  from a b c show ?thesis by blast
qed

text \<open>
  Claim C2, amended. For a run of requests on one connection, of whatever command types,
  that were all sent: there is one identifier per request; the identifier at each
  position is the counter's value before the run plus the position, in 32-bit
  arithmetic, so each identifier is the one before plus 1; the counter after the run is
  its value before plus the number of requests, which is where the next run goes on; as
  long as the counter does not pass \<open>2^32 - 1\<close> the identifiers increase by 1 as numbers;
  and a run of at most \<open>2^32\<close> requests has no identifier twice.
\<close>

theorem tcpSendRequests_identifiers:
  assumes calls: "\<forall>call\<in>set calls. is_tcpSendRequest call"
    and run: "tcpSendRequests calls net = Inr (cids, net')"
  shows "length cids = length calls
       \<and> net_command_id net' = net_command_id net + of_nat (length calls)
       \<and> (\<forall>i<length cids. cids ! i = net_command_id net + of_nat i)
       \<and> (\<forall>i. Suc i < length cids \<longrightarrow> cids ! Suc i = cids ! i + 1)
       \<and> (unat (net_command_id net) + length calls \<le> 2 ^ 32 \<longrightarrow>
            (\<forall>i < length cids. unat (cids ! i) = unat (net_command_id net) + i))
       \<and> (length calls \<le> 2 ^ 32 \<longrightarrow> distinct cids)"
proof -
  have eq: "cids = map (\<lambda>i. net_command_id net + of_nat i) [0..<length calls]"
    and ctr: "net_command_id net' = net_command_id net + of_nat (length calls)"
    using tcpSendRequests_Inr [OF calls run] by simp_all
  have len: "length cids = length calls" by (simp add: eq)
  have pos: "\<forall>i<length cids. cids ! i = net_command_id net + of_nat i"
    by (simp add: eq)
  have step: "\<forall>i. Suc i < length cids \<longrightarrow> cids ! Suc i = cids ! i + 1"
    by (simp add: eq add.assoc)
  have incr: "unat (net_command_id net) + length calls \<le> 2 ^ 32 \<longrightarrow>
            (\<forall>i < length cids. unat (cids ! i) = unat (net_command_id net) + i)"
    by (simp add: eq command_id_offset_unat)
  have dist: "length calls \<le> 2 ^ 32 \<longrightarrow> distinct cids"
    by (simp add: eq command_id_offsets_distinct)
  from len ctr pos step incr dist show ?thesis by blast
qed

theorem tcpSendRequests_identifiers_witness:
  "is_tcpSendRequest (tcpSendRequest example_Connect 5000)
   \<and> is_tcpSendRequest (tcpSendRequest example_LoadModelLibrary (kX64, kLinux))
   \<and> tcpSendRequests
         [tcpSendRequest example_Connect 5000,
          tcpSendRequest example_LoadModelLibrary (kX64, kLinux)]
         (example_Network [] [] [])
       = Inr ([0, 1],
            \<lparr>net_tcp_socket =
               \<lparr>rx = [], incoming = [],
                tx = [1, 0, 0, 0, 0, 3, 0, 0x88, 0x13, 2, 1, 0, 0, 0, 0, 0],
                send_fault = None\<rparr>,
             net_udp_socket = \<lparr>queue = [], arriving = []\<rparr>,
             net_udp_port = 5000, net_command_id = 2\<rparr>)
   \<and> length [0, 1 :: 32 word] = 2
   \<and> (2 :: 32 word) = net_command_id (example_Network [] [] []) + 2
   \<and> [0, 1 :: 32 word] ! 0 = net_command_id (example_Network [] [] []) + 0
   \<and> [0, 1 :: 32 word] ! Suc 0 = [0, 1] ! 0 + 1
   \<and> unat ([0, 1 :: 32 word] ! 1) = unat (net_command_id (example_Network [] [] [])) + 1
   \<and> distinct [0, 1 :: 32 word]"
proof -
  let ?calls = "[tcpSendRequest example_Connect 5000,
                 tcpSendRequest example_LoadModelLibrary (kX64, kLinux)]"
  have c1: "is_tcpSendRequest (tcpSendRequest example_Connect 5000)"
    and c2: "is_tcpSendRequest (tcpSendRequest example_LoadModelLibrary (kX64, kLinux))"
    by (rule tcpSendRequest_is_call)+
  have calls: "\<forall>call\<in>set ?calls. is_tcpSendRequest call"
    using c1 c2 by simp
  have run: "tcpSendRequests ?calls (example_Network [] [] [])
     = Inr ([0, 1],
            \<lparr>net_tcp_socket =
               \<lparr>rx = [], incoming = [],
                tx = [1, 0, 0, 0, 0, 3, 0, 0x88, 0x13, 2, 1, 0, 0, 0, 0, 0],
                send_fault = None\<rparr>,
             net_udp_socket = \<lparr>queue = [], arriving = []\<rparr>,
             net_udp_port = 5000, net_command_id = 2\<rparr>)"
    by (simp add: tcpSendRequest_def sendBytes_def example_Network_def Network_new_def
        example_tcp_def example_udp_def example_Connect_def example_Header_def
        example_Connect_Request_def Connect_Request_ctor_def bytes_le16_def bytes_le32_def
        example_LoadModelLibrary_def example_LoadModelLibrary_Request_def)
  have rest: "length [0, 1 :: 32 word] = 2
   \<and> (2 :: 32 word) = net_command_id (example_Network [] [] []) + 2
   \<and> [0, 1 :: 32 word] ! 0 = net_command_id (example_Network [] [] []) + 0
   \<and> [0, 1 :: 32 word] ! Suc 0 = [0, 1] ! 0 + 1
   \<and> unat ([0, 1 :: 32 word] ! 1) = unat (net_command_id (example_Network [] [] [])) + 1
   \<and> distinct [0, 1 :: 32 word]"
    using tcpSendRequests_identifiers [OF calls run]
    by (simp add: example_Network_command_id)
  from c1 c2 run rest show ?thesis by blast
qed

section \<open>The streaming channel\<close>

lemma udpBlockingReceiveUnsafe_queued:
  assumes "queue (net_udp_socket net) = d # ds"
  shows "udpBlockingReceiveUnsafe T net =
           (if length d < sizeof T
            then Inl (ProtocolException ''libfranka: incorrect object size'')
            else Inr (from_bytes T (take (sizeof T) d),
                      net\<lparr>net_udp_socket := (net_udp_socket net)\<lparr>queue := ds\<rparr>\<rparr>))"
  using assms by (auto simp: udpBlockingReceiveUnsafe_def receiveFrom_def)

text \<open>
  Claim C9. With no datagram queued, or with a first datagram shorter than a snapshot,
  \<open>udpReceive\<close> returns false at once: it raises nothing, the output object keeps its
  value, and the socket is as before, also when a datagram is about to arrive.
\<close>

theorem udpReceive_nothing_queued:
  "(queue (net_udp_socket net) = [] \<and> 0 < sizeof T \<longrightarrow>
      udpReceive T data net = Inr ((False, data), net))
   \<and> (\<forall>d ds. queue (net_udp_socket net) = d # ds \<and> length d < sizeof T \<longrightarrow>
         udpReceive T data net = Inr ((False, data), net))"
  by (simp add: udpReceive_def udp_available_def)

theorem udpReceive_nothing_queued_witness:
  "queue \<lparr>queue = [], arriving = [[7, 0]]\<rparr> = []
   \<and> 0 < sizeof example_State
   \<and> udpReceive example_State 5 (Network_new (example_tcp [] []) \<lparr>queue = [], arriving = [[7, 0]]\<rparr> 5000)
       = Inr ((False, 5), Network_new (example_tcp [] []) \<lparr>queue = [], arriving = [[7, 0]]\<rparr> 5000)
   \<and> length [7 :: byte] < sizeof example_State
   \<and> udpReceive example_State 5 (example_Network [] [] [[7]])
       = Inr ((False, 5), example_Network [] [] [[7]])"
  using udpReceive_nothing_queued [of "Network_new (example_tcp [] []) \<lparr>queue = [], arriving = [[7, 0]]\<rparr> 5000" example_State 5]
    udpReceive_nothing_queued [of "example_Network [] [] [[7]]" example_State 5]
  by (simp add: Network_new_def example_State_def example_Network_def example_udp_def)

text \<open>
  Claim C4, as stated, fails: each receive is one \<open>receiveFrom\<close>, which takes the oldest
  datagram of the socket's queue. With the snapshots 1 and 2 queued in this order, both
  receives return 1 and leave 2 queued.
\<close>

theorem udp_receive_returns_oldest:
  "udpBlockingReceive example_State (example_Network [] [] [[1, 0], [2, 0]])
     = Inr (1, example_Network [] [] [[2, 0]])
   \<and> udpReceive example_State 0 (example_Network [] [] [[1, 0], [2, 0]])
     = Inr ((True, 1), example_Network [] [] [[2, 0]])
   \<and> from_bytes example_State [2, 0] = 2 \<and> (1 :: 16 word) \<noteq> 2"
  by (simp add: udpBlockingReceive_def udpReceive_def udp_available_def
      udpBlockingReceiveUnsafe_def receiveFrom_def example_State_def example_Network_def
      Network_new_def example_udp_def word_le16_def)

text \<open>
  Claim C4, amended. When snapshots have queued at the socket, a receive (\<open>udpReceive\<close> or
  \<open>udpBlockingReceive\<close>) returns the oldest one and removes only that one: the later
  snapshots stay queued, in order, for the receives that follow.
\<close>

theorem udp_receive_oldest_first:
  assumes "queue (net_udp_socket net) = d # ds" and "length d = sizeof T"
  shows "udpBlockingReceive T net
           = Inr (from_bytes T d, net\<lparr>net_udp_socket := (net_udp_socket net)\<lparr>queue := ds\<rparr>\<rparr>)
       \<and> udpReceive T data net
           = Inr ((True, from_bytes T d),
                  net\<lparr>net_udp_socket := (net_udp_socket net)\<lparr>queue := ds\<rparr>\<rparr>)"
  using assms
  by (simp add: udpBlockingReceive_def udpReceive_def udp_available_def
      udpBlockingReceiveUnsafe_queued)

theorem udp_receive_oldest_first_witness:
  "queue (net_udp_socket (example_Network [] [] [[1, 0], [2, 0], [3, 0]])) = [1, 0] # [[2, 0], [3, 0]]
   \<and> length [1, 0 :: byte] = sizeof example_State
   \<and> udpBlockingReceive example_State (example_Network [] [] [[1, 0], [2, 0], [3, 0]])
       = Inr (1, example_Network [] [] [[2, 0], [3, 0]])
   \<and> udpReceive example_State 9 (example_Network [] [] [[1, 0], [2, 0], [3, 0]])
       = Inr ((True, 1), example_Network [] [] [[2, 0], [3, 0]])"
  using udp_receive_oldest_first [of "example_Network [] [] [[1, 0], [2, 0], [3, 0]]"
      "[1, 0]" "[[2, 0], [3, 0]]" example_State 9]
  by (simp add: example_State_def example_Network_def Network_new_def example_udp_def
      word_le16_def)

text \<open>
  Claim C7 holds for a datagram that is too short and fails for one that is too long:
  \<open>receiveFrom\<close> copies as many bytes as the buffer holds and returns that number, which
  is the size the check compares it with. A datagram of three bytes, received as a
  snapshot of two, is returned cut to its first two bytes.
\<close>

theorem udpBlockingReceive_oversized_datagram:
  "udpBlockingReceive example_State (example_Network [] [] [[1, 0, 9]])
     = Inr (1, example_Network [] [] [])
   \<and> length [1, 0, 9 :: byte] \<noteq> sizeof example_State"
  by (simp add: udpBlockingReceive_def udpBlockingReceiveUnsafe_def receiveFrom_def
      example_State_def example_Network_def Network_new_def example_udp_def word_le16_def)

lemma udpBlockingReceive_undersized_datagram:
  assumes "queue (net_udp_socket net) = d # ds" and "length d < sizeof T"
  shows "udpBlockingReceive T net = Inl (ProtocolException ''libfranka: incorrect object size'')"
  using assms by (simp add: udpBlockingReceive_def udpBlockingReceiveUnsafe_queued)

lemma udpBlockingReceive_oversized_truncated:
  assumes "queue (net_udp_socket net) = d # ds" and "sizeof T < length d"
  shows "udpBlockingReceive T net =
           Inr (from_bytes T (take (sizeof T) d),
                net\<lparr>net_udp_socket := (net_udp_socket net)\<lparr>queue := ds\<rparr>\<rparr>)"
  using assms by (simp add: udpBlockingReceive_def udpBlockingReceiveUnsafe_queued)

section \<open>The reliable channel\<close>

lemma tcpPeekHeaderUnsafe_short:
  "length (rx (net_tcp_socket net)) < sizeof (Header T) \<Longrightarrow> tcpPeekHeaderUnsafe T net = Inr None"
  by (simp add: tcpPeekHeaderUnsafe_def available_def)

lemma tcpPeekHeaderUnsafe_header:
  "0 < sizeof (Header T) \<Longrightarrow> sizeof (Header T) \<le> length (rx (net_tcp_socket net)) \<Longrightarrow>
     tcpPeekHeaderUnsafe T net =
       Inr (Some (from_bytes (Header T) (take (sizeof (Header T)) (rx (net_tcp_socket net)))))"
  by (auto simp: tcpPeekHeaderUnsafe_def available_def poll_read_def receiveBytes_peek_def)

lemma tcpReceiveIntoBufferUnsafe_complete:
  "n \<le> length (rx (net_tcp_socket net) @ incoming (net_tcp_socket net)) \<Longrightarrow>
     tcpReceiveIntoBufferUnsafe n net =
       Inr (take n (rx (net_tcp_socket net) @ incoming (net_tcp_socket net)),
            net\<lparr>net_tcp_socket := (net_tcp_socket net)
                   \<lparr>rx := drop n (rx (net_tcp_socket net)),
                    incoming := drop (n - length (rx (net_tcp_socket net)))
                                  (incoming (net_tcp_socket net))\<rparr>\<rparr>)"
  by (simp add: tcpReceiveIntoBufferUnsafe_def Let_def)

lemma tcpReceiveIntoBufferUnsafe_short:
  "length (rx (net_tcp_socket net) @ incoming (net_tcp_socket net)) < n \<Longrightarrow>
     tcpReceiveIntoBufferUnsafe n net = Inl (NetworkException ''libfranka: FRANKA connection closed'')"
  by (simp add: tcpReceiveIntoBufferUnsafe_def Let_def)

lemma payload_of_frame: "drop h (take (h + r) xs) = take r (drop h xs)"
  by (simp add: drop_take)

lemmas example_defs =
  example_Network_def Network_new_def example_tcp_def example_udp_def example_Connect_def
  example_Header_def example_Connect_Request_def example_Connect_Response_def
  example_Status_def Connect_Request_ctor_def bytes_le16_def bytes_le32_def word_le16_def
  word_le32_def

lemma tcpBlockingReceiveResponse_skip:
  assumes "0 < sizeof (Header T)" and "\<not> head_matches T cid (tcp_step ev net)"
  shows "tcpBlockingReceiveResponse T cid (ev # evs) net
           = tcpBlockingReceiveResponse T cid evs (tcp_step ev net)"
proof (cases "sizeof (Header T) \<le> length (rx (net_tcp_socket (tcp_step ev net)))")
  case True
  with assms show ?thesis
    by (auto simp: Let_def tcpPeekHeaderUnsafe_header head_matches_def)
next
  case False
  then show ?thesis
    by (simp add: Let_def tcpPeekHeaderUnsafe_short)
qed

lemma tcpBlockingReceiveResponse_take:
  assumes "0 < sizeof (Header T)" and "head_matches T cid (tcp_step ev net)"
    and "sizeof (Header T) + sizeof (Response T)
           \<le> length (rx (net_tcp_socket (tcp_step ev net))
                      @ incoming (net_tcp_socket (tcp_step ev net)))"
  shows "tcpBlockingReceiveResponse T cid (ev # evs) net =
           Some (Inr (from_bytes (Response T)
                        (take (sizeof (Response T))
                           (drop (sizeof (Header T))
                              (rx (net_tcp_socket (tcp_step ev net))
                               @ incoming (net_tcp_socket (tcp_step ev net))))),
                      (tcp_step ev net)\<lparr>net_tcp_socket := (net_tcp_socket (tcp_step ev net))
                        \<lparr>rx := drop (sizeof (Header T) + sizeof (Response T))
                                 (rx (net_tcp_socket (tcp_step ev net))),
                         incoming := drop (sizeof (Header T) + sizeof (Response T)
                                             - length (rx (net_tcp_socket (tcp_step ev net))))
                                       (incoming (net_tcp_socket (tcp_step ev net)))\<rparr>\<rparr>))"
proof -
  define net1 where "net1 = tcp_step ev net"
  from assms(2) have len: "sizeof (Header T) \<le> length (rx (net_tcp_socket net1))"
    and m: "command (from_bytes (Header T) (take (sizeof (Header T)) (rx (net_tcp_socket net1)))) = kCommand T"
    "command_id (from_bytes (Header T) (take (sizeof (Header T)) (rx (net_tcp_socket net1)))) = cid"
    by (simp_all add: head_matches_def net1_def)
  have peek: "tcpPeekHeaderUnsafe T net1 =
       Inr (Some (from_bytes (Header T) (take (sizeof (Header T)) (rx (net_tcp_socket net1)))))"
    using assms(1) len by (rule tcpPeekHeaderUnsafe_header)
  have rd: "tcpReceiveIntoBufferUnsafe (sizeof (Header T) + sizeof (Response T)) net1 =
       Inr (take (sizeof (Header T) + sizeof (Response T))
              (rx (net_tcp_socket net1) @ incoming (net_tcp_socket net1)),
            net1\<lparr>net_tcp_socket := (net_tcp_socket net1)
                   \<lparr>rx := drop (sizeof (Header T) + sizeof (Response T)) (rx (net_tcp_socket net1)),
                    incoming := drop (sizeof (Header T) + sizeof (Response T)
                                        - length (rx (net_tcp_socket net1)))
                                  (incoming (net_tcp_socket net1))\<rparr>\<rparr>)"
    using assms(3) unfolding net1_def by (rule tcpReceiveIntoBufferUnsafe_complete)
  have "tcpBlockingReceiveResponse T cid (ev # evs) net =
          (case tcpPeekHeaderUnsafe T net1 of
            Inl e \<Rightarrow> Some (Inl e)
          | Inr None \<Rightarrow> tcpBlockingReceiveResponse T cid evs net1
          | Inr (Some response_header) \<Rightarrow>
              if command response_header = kCommand T \<and> command_id response_header = cid
              then (case tcpReceiveIntoBufferUnsafe (sizeof (Header T) + sizeof (Response T)) net1 of
                      Inl e \<Rightarrow> Some (Inl e)
                    | Inr (response, net2) \<Rightarrow>
                        Some (Inr (from_bytes (Response T) (drop (sizeof (Header T)) response), net2)))
              else tcpBlockingReceiveResponse T cid evs net1)"
    unfolding net1_def by (simp add: Let_def)
  also have "\<dots> = Some (Inr (from_bytes (Response T)
                        (take (sizeof (Response T))
                           (drop (sizeof (Header T))
                              (rx (net_tcp_socket net1) @ incoming (net_tcp_socket net1)))),
                      net1\<lparr>net_tcp_socket := (net_tcp_socket net1)
                        \<lparr>rx := drop (sizeof (Header T) + sizeof (Response T))
                                 (rx (net_tcp_socket net1)),
                         incoming := drop (sizeof (Header T) + sizeof (Response T)
                                             - length (rx (net_tcp_socket net1)))
                                       (incoming (net_tcp_socket net1))\<rparr>\<rparr>))"
    unfolding peek rd by (simp add: m payload_of_frame del: take_append drop_append)
  finally show ?thesis unfolding net1_def .
qed

lemma tcpBlockingReceiveResponse_blocks:
  assumes "0 < sizeof (Header T)"
    and "\<forall>k<length evs. \<not> head_matches T cid (tcp_steps (take (Suc k) evs) net)"
  shows "tcpBlockingReceiveResponse T cid evs net = None"
  using assms(2)
proof (induction evs arbitrary: net)
  case Nil
  then show ?case by simp
next
  case (Cons ev evs)
  from Cons.prems have first: "\<not> head_matches T cid (tcp_step ev net)"
    by (auto dest: spec [of _ 0])
  have rest: "\<forall>k<length evs. \<not> head_matches T cid (tcp_steps (take (Suc k) evs) (tcp_step ev net))"
  proof (intro allI impI)
    fix k assume "k < length evs"
    then have "Suc k < length (ev # evs)" by simp
    with Cons.prems have "\<not> head_matches T cid (tcp_steps (take (Suc (Suc k)) (ev # evs)) net)"
      by blast
    then show "\<not> head_matches T cid (tcp_steps (take (Suc k) evs) (tcp_step ev net))" by simp
  qed
  show ?case
    using tcpBlockingReceiveResponse_skip [OF assms(1) first] Cons.IH [OF rest] by simp
qed

lemma tcpBlockingReceiveResponse_first_match:
  assumes "0 < sizeof (Header T)"
    and "k < length evs"
    and "\<forall>j<k. \<not> head_matches T cid (tcp_steps (take (Suc j) evs) net)"
    and "head_matches T cid (tcp_steps (take (Suc k) evs) net)"
    and "sizeof (Header T) + sizeof (Response T)
           \<le> length (rx (net_tcp_socket (tcp_steps (take (Suc k) evs) net))
                      @ incoming (net_tcp_socket (tcp_steps (take (Suc k) evs) net)))"
  shows "tcpBlockingReceiveResponse T cid evs net =
           Some (Inr (from_bytes (Response T)
                        (take (sizeof (Response T))
                           (drop (sizeof (Header T))
                              (rx (net_tcp_socket (tcp_steps (take (Suc k) evs) net))
                               @ incoming (net_tcp_socket (tcp_steps (take (Suc k) evs) net))))),
                      (tcp_steps (take (Suc k) evs) net)
                        \<lparr>net_tcp_socket := (net_tcp_socket (tcp_steps (take (Suc k) evs) net))
                          \<lparr>rx := drop (sizeof (Header T) + sizeof (Response T))
                                   (rx (net_tcp_socket (tcp_steps (take (Suc k) evs) net))),
                           incoming := drop (sizeof (Header T) + sizeof (Response T)
                               - length (rx (net_tcp_socket (tcp_steps (take (Suc k) evs) net))))
                             (incoming (net_tcp_socket (tcp_steps (take (Suc k) evs) net)))\<rparr>\<rparr>))"
  using assms(2-5)
proof (induction evs arbitrary: net k)
  case Nil
  then show ?case by simp
next
  case (Cons ev evs)
  show ?case
  proof (cases k)
    case 0
    with Cons.prems have hm: "head_matches T cid (tcp_step ev net)"
      and len: "sizeof (Header T) + sizeof (Response T)
           \<le> length (rx (net_tcp_socket (tcp_step ev net)) @ incoming (net_tcp_socket (tcp_step ev net)))"
      by simp_all
    show ?thesis
      using tcpBlockingReceiveResponse_take [OF assms(1) hm len] 0 by simp
  next
    case (Suc k')
    from Cons.prems(2) Suc have first: "\<not> head_matches T cid (tcp_step ev net)"
      by (auto dest: spec [of _ 0])
    have k': "k' < length evs" using Cons.prems(1) Suc by simp
    have before: "\<forall>j<k'. \<not> head_matches T cid (tcp_steps (take (Suc j) evs) (tcp_step ev net))"
    proof (intro allI impI)
      fix j assume "j < k'"
      then have "Suc j < k" using Suc by simp
      with Cons.prems(2) have "\<not> head_matches T cid (tcp_steps (take (Suc (Suc j)) (ev # evs)) net)"
        by blast
      then show "\<not> head_matches T cid (tcp_steps (take (Suc j) evs) (tcp_step ev net))" by simp
    qed
    have hm: "head_matches T cid (tcp_steps (take (Suc k') evs) (tcp_step ev net))"
      using Cons.prems(3) Suc by simp
    have len: "sizeof (Header T) + sizeof (Response T)
           \<le> length (rx (net_tcp_socket (tcp_steps (take (Suc k') evs) (tcp_step ev net)))
                      @ incoming (net_tcp_socket (tcp_steps (take (Suc k') evs) (tcp_step ev net))))"
      using Cons.prems(4) Suc by simp
    show ?thesis
      using tcpBlockingReceiveResponse_skip [OF assms(1) first, of evs]
        Cons.IH [OF k' before hm len] Suc
      by simp
  qed
qed

lemma tcpReceiveResponse_short_frame:
  assumes "0 < sizeof (Header T)" and "head_matches T cid net"
    and "length (rx (net_tcp_socket net) @ incoming (net_tcp_socket net))
           < sizeof (Header T) + sizeof (Response T)"
  shows "tcpReceiveResponse T cid handler h net
           = Inl (NetworkException ''libfranka: FRANKA connection closed'')"
proof -
  from assms(2) have len: "sizeof (Header T) \<le> length (rx (net_tcp_socket net))"
    by (simp add: head_matches_def)
  show ?thesis
    using assms(2,3)
    by (simp add: tcpReceiveResponse_def tcpPeekHeaderUnsafe_header [OF assms(1) len]
        tcpReceiveIntoBufferUnsafe_short head_matches_def)
qed

text \<open>
  Claim C1. One call of \<open>tcpReceiveResponse\<close>, for a command and an identifier:
  with fewer bytes than a header on the socket it returns false and leaves the socket,
  and the handler's state, as they were; with a complete header that has another command
  or another identifier it does the same, so the frame is still there for the call that
  asks for it; with a header that has both, and a frame that arrives in full, it returns
  true, has read exactly the header and the payload off the stream, and has applied the
  handler once, to that payload.
\<close>

theorem tcpReceiveResponse_cases:
  "(length (rx (net_tcp_socket net)) < sizeof (Header T) \<longrightarrow>
      tcpReceiveResponse T cid handler h net = Inr (False, h, net))
   \<and> (0 < sizeof (Header T) \<and> sizeof (Header T) \<le> length (rx (net_tcp_socket net))
        \<and> \<not> head_matches T cid net \<longrightarrow>
      tcpReceiveResponse T cid handler h net = Inr (False, h, net))
   \<and> (0 < sizeof (Header T) \<and> head_matches T cid net
        \<and> sizeof (Header T) + sizeof (Response T)
            \<le> length (rx (net_tcp_socket net) @ incoming (net_tcp_socket net)) \<longrightarrow>
      tcpReceiveResponse T cid handler h net =
        Inr (True,
             handler (from_bytes (Response T)
                        (take (sizeof (Response T))
                           (drop (sizeof (Header T))
                              (rx (net_tcp_socket net) @ incoming (net_tcp_socket net))))) h,
             net\<lparr>net_tcp_socket := (net_tcp_socket net)
                   \<lparr>rx := drop (sizeof (Header T) + sizeof (Response T)) (rx (net_tcp_socket net)),
                    incoming := drop (sizeof (Header T) + sizeof (Response T)
                                        - length (rx (net_tcp_socket net)))
                                  (incoming (net_tcp_socket net))\<rparr>\<rparr>))"
proof (intro conjI impI)
  assume "length (rx (net_tcp_socket net)) < sizeof (Header T)"
  then show "tcpReceiveResponse T cid handler h net = Inr (False, h, net)"
    by (simp add: tcpReceiveResponse_def tcpPeekHeaderUnsafe_short)
next
  assume "0 < sizeof (Header T) \<and> sizeof (Header T) \<le> length (rx (net_tcp_socket net))
        \<and> \<not> head_matches T cid net"
  then show "tcpReceiveResponse T cid handler h net = Inr (False, h, net)"
    by (auto simp: tcpReceiveResponse_def tcpPeekHeaderUnsafe_header head_matches_def)
next
  assume a: "0 < sizeof (Header T) \<and> head_matches T cid net
        \<and> sizeof (Header T) + sizeof (Response T)
            \<le> length (rx (net_tcp_socket net) @ incoming (net_tcp_socket net))"
  then have len: "sizeof (Header T) \<le> length (rx (net_tcp_socket net))"
    by (simp add: head_matches_def)
  from a have peek: "tcpPeekHeaderUnsafe T net =
       Inr (Some (from_bytes (Header T) (take (sizeof (Header T)) (rx (net_tcp_socket net)))))"
    using len by (simp add: tcpPeekHeaderUnsafe_header)
  from a have rd: "tcpReceiveIntoBufferUnsafe (sizeof (Header T) + sizeof (Response T)) net =
       Inr (take (sizeof (Header T) + sizeof (Response T))
              (rx (net_tcp_socket net) @ incoming (net_tcp_socket net)),
            net\<lparr>net_tcp_socket := (net_tcp_socket net)
                   \<lparr>rx := drop (sizeof (Header T) + sizeof (Response T)) (rx (net_tcp_socket net)),
                    incoming := drop (sizeof (Header T) + sizeof (Response T)
                                        - length (rx (net_tcp_socket net)))
                                  (incoming (net_tcp_socket net))\<rparr>\<rparr>)"
    by (simp only: tcpReceiveIntoBufferUnsafe_complete)
  from a have m: "command (from_bytes (Header T) (take (sizeof (Header T)) (rx (net_tcp_socket net)))) = kCommand T"
    "command_id (from_bytes (Header T) (take (sizeof (Header T)) (rx (net_tcp_socket net)))) = cid"
    by (simp_all add: head_matches_def)
  show "tcpReceiveResponse T cid handler h net =
        Inr (True,
             handler (from_bytes (Response T)
                        (take (sizeof (Response T))
                           (drop (sizeof (Header T))
                              (rx (net_tcp_socket net) @ incoming (net_tcp_socket net))))) h,
             net\<lparr>net_tcp_socket := (net_tcp_socket net)
                   \<lparr>rx := drop (sizeof (Header T) + sizeof (Response T)) (rx (net_tcp_socket net)),
                    incoming := drop (sizeof (Header T) + sizeof (Response T)
                                        - length (rx (net_tcp_socket net)))
                                  (incoming (net_tcp_socket net))\<rparr>\<rparr>)"
    unfolding tcpReceiveResponse_def peek rd
    by (simp add: m payload_of_frame del: take_append drop_append)
qed

theorem tcpReceiveResponse_cases_witness:
  "length (rx (net_tcp_socket (example_Network [1, 7, 0] [] []))) < sizeof (Header example_Connect)
   \<and> tcpReceiveResponse example_Connect 7 (\<lambda>r log. log @ [r]) [] (example_Network [1, 7, 0] [] [])
       = Inr (False, [], example_Network [1, 7, 0] [] [])
   \<and> 0 < sizeof (Header example_Connect)
   \<and> sizeof (Header example_Connect)
       \<le> length (rx (net_tcp_socket (example_Network [1, 7, 0, 0, 0, 0, 4, 0] [] [])))
   \<and> \<not> head_matches example_Connect 8 (example_Network [1, 7, 0, 0, 0, 0, 4, 0] [] [])
   \<and> tcpReceiveResponse example_Connect 8 (\<lambda>r log. log @ [r]) []
         (example_Network [1, 7, 0, 0, 0, 0, 4, 0] [] [])
       = Inr (False, [], example_Network [1, 7, 0, 0, 0, 0, 4, 0] [] [])
   \<and> head_matches example_Connect 7 (example_Network [1, 7, 0, 0, 0, 0, 4, 0] [] [])
   \<and> tcpReceiveResponse example_Connect 7 (\<lambda>r log. log @ [r]) []
         (example_Network [1, 7, 0, 0, 0, 0, 4, 0] [] [])
       = Inr (True, [\<lparr>status = kSuccess, version = 4\<rparr>], example_Network [] [] [])
   \<and> head_matches example_Connect 7 (example_Network [1, 7, 0, 0, 0, 0] [4, 0, 1, 8] [])
   \<and> tcpReceiveResponse example_Connect 7 (\<lambda>r log. log @ [r]) []
         (example_Network [1, 7, 0, 0, 0, 0] [4, 0, 1, 8] [])
       = Inr (True, [\<lparr>status = kSuccess, version = 4\<rparr>], example_Network [] [1, 8] [])"
  using
    tcpReceiveResponse_cases [of "example_Network [1, 7, 0] [] []" example_Connect 7
      "\<lambda>r log. log @ [r]" "[]"]
    tcpReceiveResponse_cases [of "example_Network [1, 7, 0, 0, 0, 0, 4, 0] [] []" example_Connect 8
      "\<lambda>r log. log @ [r]" "[]"]
    tcpReceiveResponse_cases [of "example_Network [1, 7, 0, 0, 0, 0, 4, 0] [] []" example_Connect 7
      "\<lambda>r log. log @ [r]" "[]"]
    tcpReceiveResponse_cases [of "example_Network [1, 7, 0, 0, 0, 0] [4, 0, 1, 8] []" example_Connect 7
      "\<lambda>r log. log @ [r]" "[]"]
  by (simp add: head_matches_def example_defs)

text \<open>
  Claim C6. \<open>tcpBlockingReceiveResponse\<close>, for a command and an identifier, over the
  events of the channel: as long as no round finds a header with both at the head of the
  stream, the call has not returned; in the first round that finds one, it returns the
  payload of that frame (the frame arriving in full), and the stream it leaves is the one
  the events produced, without that frame and nothing else: whatever stood at the head in
  the rounds before was neither read nor skipped by this call.
\<close>

theorem tcpBlockingReceiveResponse_matching_frame:
  assumes "0 < sizeof (Header T)"
  shows
    "((\<forall>k<length evs. \<not> head_matches T cid (tcp_steps (take (Suc k) evs) net)) \<longrightarrow>
        tcpBlockingReceiveResponse T cid evs net = None)
     \<and> (\<forall>k<length evs.
          (\<forall>j<k. \<not> head_matches T cid (tcp_steps (take (Suc j) evs) net))
          \<and> head_matches T cid (tcp_steps (take (Suc k) evs) net)
          \<and> sizeof (Header T) + sizeof (Response T)
               \<le> length (rx (net_tcp_socket (tcp_steps (take (Suc k) evs) net))
                          @ incoming (net_tcp_socket (tcp_steps (take (Suc k) evs) net)))
          \<longrightarrow>
          tcpBlockingReceiveResponse T cid evs net =
            Some (Inr (from_bytes (Response T)
                        (take (sizeof (Response T))
                           (drop (sizeof (Header T))
                              (rx (net_tcp_socket (tcp_steps (take (Suc k) evs) net))
                               @ incoming (net_tcp_socket (tcp_steps (take (Suc k) evs) net))))),
                      (tcp_steps (take (Suc k) evs) net)
                        \<lparr>net_tcp_socket := (net_tcp_socket (tcp_steps (take (Suc k) evs) net))
                          \<lparr>rx := drop (sizeof (Header T) + sizeof (Response T))
                                   (rx (net_tcp_socket (tcp_steps (take (Suc k) evs) net))),
                           incoming := drop (sizeof (Header T) + sizeof (Response T)
                               - length (rx (net_tcp_socket (tcp_steps (take (Suc k) evs) net))))
                             (incoming (net_tcp_socket (tcp_steps (take (Suc k) evs) net)))\<rparr>\<rparr>)))"
proof (intro conjI impI allI)
  assume "\<forall>k<length evs. \<not> head_matches T cid (tcp_steps (take (Suc k) evs) net)"
  with assms show "tcpBlockingReceiveResponse T cid evs net = None"
    by (rule tcpBlockingReceiveResponse_blocks)
next
  fix k
  assume k: "k < length evs"
    and h: "(\<forall>j<k. \<not> head_matches T cid (tcp_steps (take (Suc j) evs) net))
          \<and> head_matches T cid (tcp_steps (take (Suc k) evs) net)
          \<and> sizeof (Header T) + sizeof (Response T)
               \<le> length (rx (net_tcp_socket (tcp_steps (take (Suc k) evs) net))
                          @ incoming (net_tcp_socket (tcp_steps (take (Suc k) evs) net)))"
  from h have h1: "\<forall>j<k. \<not> head_matches T cid (tcp_steps (take (Suc j) evs) net)"
    and h2: "head_matches T cid (tcp_steps (take (Suc k) evs) net)"
    and h3: "sizeof (Header T) + sizeof (Response T)
               \<le> length (rx (net_tcp_socket (tcp_steps (take (Suc k) evs) net))
                          @ incoming (net_tcp_socket (tcp_steps (take (Suc k) evs) net)))"
    by blast+
  show "tcpBlockingReceiveResponse T cid evs net =
            Some (Inr (from_bytes (Response T)
                        (take (sizeof (Response T))
                           (drop (sizeof (Header T))
                              (rx (net_tcp_socket (tcp_steps (take (Suc k) evs) net))
                               @ incoming (net_tcp_socket (tcp_steps (take (Suc k) evs) net))))),
                      (tcp_steps (take (Suc k) evs) net)
                        \<lparr>net_tcp_socket := (net_tcp_socket (tcp_steps (take (Suc k) evs) net))
                          \<lparr>rx := drop (sizeof (Header T) + sizeof (Response T))
                                   (rx (net_tcp_socket (tcp_steps (take (Suc k) evs) net))),
                           incoming := drop (sizeof (Header T) + sizeof (Response T)
                               - length (rx (net_tcp_socket (tcp_steps (take (Suc k) evs) net))))
                             (incoming (net_tcp_socket (tcp_steps (take (Suc k) evs) net)))\<rparr>\<rparr>))"
    by (rule tcpBlockingReceiveResponse_first_match [OF assms k h1 h2 h3])
qed


theorem tcpBlockingReceiveResponse_matching_frame_witness:
  "0 < sizeof (Header example_Connect)
   \<and> \<not> head_matches example_Connect 8
         (tcp_steps [Arrives 8]
            (example_Network [] [1, 7, 0, 0, 0, 0, 3, 0, 1, 8, 0, 0, 0, 0, 4, 0] []))
   \<and> \<not> head_matches example_Connect 8
         (tcp_steps [Arrives 8, Arrives 8]
            (example_Network [] [1, 7, 0, 0, 0, 0, 3, 0, 1, 8, 0, 0, 0, 0, 4, 0] []))
   \<and> head_matches example_Connect 8
         (tcp_steps [Arrives 8, Arrives 8, OtherReads 8]
            (example_Network [] [1, 7, 0, 0, 0, 0, 3, 0, 1, 8, 0, 0, 0, 0, 4, 0] []))
   \<and> tcpBlockingReceiveResponse example_Connect 8 [Arrives 8, Arrives 8]
         (example_Network [] [1, 7, 0, 0, 0, 0, 3, 0, 1, 8, 0, 0, 0, 0, 4, 0] []) = None
   \<and> tcpBlockingReceiveResponse example_Connect 8 [Arrives 8, Arrives 8, OtherReads 8, Arrives 0]
         (example_Network [] [1, 7, 0, 0, 0, 0, 3, 0, 1, 8, 0, 0, 0, 0, 4, 0] [])
       = Some (Inr (\<lparr>status = kSuccess, version = 4\<rparr>, example_Network [] [] []))"
proof -
  let ?net = "example_Network [] [1, 7, 0, 0, 0, 0, 3, 0, 1, 8, 0, 0, 0, 0, 4, 0] []"
  let ?two = "[Arrives 8, Arrives 8]"
  let ?four = "[Arrives 8, Arrives 8, OtherReads 8, Arrives 0]"
  have pos: "0 < sizeof (Header example_Connect)"
    by (simp add: example_defs)
  have s1: "\<not> head_matches example_Connect 8 (tcp_steps [Arrives 8] ?net)"
    by (simp add: head_matches_def Let_def example_defs)
  have s2: "\<not> head_matches example_Connect 8 (tcp_steps [Arrives 8, Arrives 8] ?net)"
    by (simp add: head_matches_def Let_def example_defs)
  have s3: "head_matches example_Connect 8 (tcp_steps [Arrives 8, Arrives 8, OtherReads 8] ?net)"
    by (simp add: head_matches_def Let_def example_defs)
  have blocked: "\<forall>k<length ?two.
      \<not> head_matches example_Connect 8 (tcp_steps (take (Suc k) ?two) ?net)"
  proof (intro allI impI)
    fix k assume "k < length ?two"
    then have "k = 0 \<or> k = 1" by auto
    then show "\<not> head_matches example_Connect 8 (tcp_steps (take (Suc k) ?two) ?net)"
    proof
      assume "k = 0"
      then have t: "take (Suc k) ?two = [Arrives 8]" by simp
      show ?thesis unfolding t by (rule s1)
    next
      assume "k = 1"
      then have t: "take (Suc k) ?two = [Arrives 8, Arrives 8]" by simp
      show ?thesis unfolding t by (rule s2)
    qed
  qed
  have none: "tcpBlockingReceiveResponse example_Connect 8 ?two ?net = None"
    using tcpBlockingReceiveResponse_matching_frame [OF pos, of ?two 8 ?net, THEN conjunct1]
      blocked by (rule mp)
  have t3: "take (Suc (Suc (Suc 0))) ?four = [Arrives 8, Arrives 8, OtherReads 8]"
    by simp
  have before: "\<forall>j<Suc (Suc 0).
      \<not> head_matches example_Connect 8 (tcp_steps (take (Suc j) ?four) ?net)"
  proof (intro allI impI)
    fix j :: nat assume "j < Suc (Suc 0)"
    then have "j = 0 \<or> j = 1" by auto
    then show "\<not> head_matches example_Connect 8 (tcp_steps (take (Suc j) ?four) ?net)"
    proof
      assume "j = 0"
      then have t: "take (Suc j) ?four = [Arrives 8]" by simp
      show ?thesis unfolding t by (rule s1)
    next
      assume "j = 1"
      then have t: "take (Suc j) ?four = [Arrives 8, Arrives 8]" by simp
      show ?thesis unfolding t by (rule s2)
    qed
  qed
  have third: "head_matches example_Connect 8
      (tcp_steps (take (Suc (Suc (Suc 0))) ?four) ?net)"
    unfolding t3 by (rule s3)
  have whole: "sizeof (Header example_Connect) + sizeof (Response example_Connect)
      \<le> length (rx (net_tcp_socket (tcp_steps (take (Suc (Suc (Suc 0))) ?four) ?net))
          @ incoming (net_tcp_socket (tcp_steps (take (Suc (Suc (Suc 0))) ?four) ?net)))"
    unfolding t3 by (simp add: Let_def example_defs)
  have klen: "Suc (Suc 0) < length ?four" by simp
  have some: "tcpBlockingReceiveResponse example_Connect 8 ?four ?net
       = Some (Inr (\<lparr>status = kSuccess, version = 4\<rparr>, example_Network [] [] []))"
    using tcpBlockingReceiveResponse_matching_frame [OF pos, of ?four 8 ?net,
        THEN conjunct2, rule_format, OF klen, OF conjI [OF before conjI [OF third whole]]]
    unfolding t3 by (simp add: Let_def example_defs)
  show ?thesis
    by (intro conjI) (rule pos s1 s2 s3 none some)+
qed

section \<open>Version negotiation\<close>

lemma tcp_step_tx: "tx (net_tcp_socket (tcp_step ev net)) = tx (net_tcp_socket net)"
  by (cases ev) (simp_all add: Let_def)

lemma tcpReceiveIntoBufferUnsafe_tx:
  "tcpReceiveIntoBufferUnsafe n net = Inr (bs, net') \<Longrightarrow>
     tx (net_tcp_socket net') = tx (net_tcp_socket net)"
  by (auto simp: tcpReceiveIntoBufferUnsafe_def Let_def split: if_splits)

lemma tcpBlockingReceiveResponse_tx:
  "tcpBlockingReceiveResponse T cid evs net = Some (Inr (r, net')) \<Longrightarrow>
     tx (net_tcp_socket net') = tx (net_tcp_socket net)"
proof (induction evs arbitrary: net)
  case Nil
  then show ?case by simp
next
  case (Cons ev evs)
  show ?case
  proof (cases "tcpPeekHeaderUnsafe T (tcp_step ev net)")
    case (Inl e)
    with Cons.prems show ?thesis by (simp add: Let_def)
  next
    case (Inr ho)
    show ?thesis
    proof (cases ho)
      case None
      with Inr Cons.prems have "tcpBlockingReceiveResponse T cid evs (tcp_step ev net) = Some (Inr (r, net'))"
        by (simp add: Let_def)
      from Cons.IH [OF this] show ?thesis by (simp add: tcp_step_tx)
    next
      case (Some hd)
      show ?thesis
      proof (cases "command hd = kCommand T \<and> command_id hd = cid")
        case True
        with Inr Some Cons.prems obtain bs where
          "tcpReceiveIntoBufferUnsafe (sizeof (Header T) + sizeof (Response T)) (tcp_step ev net) = Inr (bs, net')"
          by (auto simp: Let_def split: sum.splits)
        from tcpReceiveIntoBufferUnsafe_tx [OF this] show ?thesis by (simp add: tcp_step_tx)
      next
        case False
        with Inr Some Cons.prems have "tcpBlockingReceiveResponse T cid evs (tcp_step ev net) = Some (Inr (r, net'))"
          by (auto simp: Let_def)
        from Cons.IH [OF this] show ?thesis by (simp add: tcp_step_tx)
      qed
    qed
  qed
qed

lemma connect_Inr:
  assumes "connect T kLibraryVersion evs network = Some (Inr (ri_version, net'))"
  obtains cid net1 connect_response where
    "tcpSendRequest T (udpPort network) network = Inr (cid, net1)"
    "tcpBlockingReceiveResponse T cid evs net1 = Some (Inr (connect_response, net'))"
  using assms
  by (auto simp: connect_def split: sum.splits option.splits Connect_Status.splits)

lemma sublist_middle: "sublist xs (ps @ xs @ ss)"
  by (auto simp: sublist_def)

text \<open>
  Claim C3. For a connect exchange (the request was sent and its response received),
  the outcome follows the status of the response: success returns normally with the
  server's version stored; an incompatible version raises the incompatible-version
  exception, whose message contains the decimal numbers of the library's version and of
  the server's version; any other status raises the protocol exception. The example is
  the library at version 3 against a server at version 4: the message contains "3" and
  "4".
\<close>

theorem connect_outcomes:
  assumes send: "tcpSendRequest T (udpPort network) network = Inr (cid, net1)"
    and recv: "tcpBlockingReceiveResponse T cid evs net1 = Some (Inr (connect_response, net2))"
  shows
    "(status connect_response = kSuccess \<longrightarrow>
        connect T kLibraryVersion evs network = Some (Inr (version connect_response, net2)))
     \<and> (status connect_response = kIncompatibleLibraryVersion \<longrightarrow>
          connect T kLibraryVersion evs network =
            Some (Inl (IncompatibleVersionException
                    (incompatible_version_message (version connect_response) kLibraryVersion))))
     \<and> (\<forall>n. status connect_response = kOtherStatus n \<longrightarrow>
          connect T kLibraryVersion evs network =
            Some (Inl (ProtocolException
                    ''libfranka gripper: protocol error during gripper connection attempt'')))
     \<and> sublist (decimal (unat kLibraryVersion))
          (incompatible_version_message (version connect_response) kLibraryVersion)
     \<and> sublist (decimal (unat (version connect_response)))
          (incompatible_version_message (version connect_response) kLibraryVersion)"
proof -
  have lib: "sublist (decimal (unat kLibraryVersion))
          (incompatible_version_message (version connect_response) kLibraryVersion)"
    unfolding incompatible_version_message_def
    using sublist_middle [of "decimal (unat kLibraryVersion)"
        "''libfranka: incompatible library version. '' @ [CHR 0x0A]
         @ ''Server version: '' @ decimal (unat (version connect_response)) @ [CHR 0x0A]
         @ ''Library version: ''" "[]"]
    by (simp del: String.char.inject)
  have srv: "sublist (decimal (unat (version connect_response)))
          (incompatible_version_message (version connect_response) kLibraryVersion)"
    unfolding incompatible_version_message_def
    using sublist_middle [of "decimal (unat (version connect_response))"
        "''libfranka: incompatible library version. '' @ [CHR 0x0A] @ ''Server version: ''"
        "[CHR 0x0A] @ ''Library version: '' @ decimal (unat kLibraryVersion)"]
    by (simp del: String.char.inject)
  show ?thesis
    using send recv lib srv by (simp add: connect_def)
qed

theorem connect_outcomes_witness:
  "tcpSendRequest example_Connect (udpPort (example_Network [] [1, 0, 0, 0, 0, 1, 4, 0] []))
       (example_Network [] [1, 0, 0, 0, 0, 1, 4, 0] [])
     = Inr (0, example_Network_connecting [] [1, 0, 0, 0, 0, 1, 4, 0])
   \<and> tcpBlockingReceiveResponse example_Connect 0 [Arrives 8]
         (example_Network_connecting [] [1, 0, 0, 0, 0, 1, 4, 0])
       = Some (Inr (\<lparr>status = kIncompatibleLibraryVersion, version = 4\<rparr>,
                    example_Network_connecting [] []))
   \<and> connect example_Connect 3 [Arrives 8] (example_Network [] [1, 0, 0, 0, 0, 1, 4, 0] [])
       = Some (Inl (IncompatibleVersionException (incompatible_version_message 4 3)))
   \<and> incompatible_version_message 4 3
       = ''libfranka: incompatible library version. '' @ [CHR 0x0A]
         @ ''Server version: 4'' @ [CHR 0x0A] @ ''Library version: 3''
   \<and> sublist ''3'' (incompatible_version_message 4 3)
   \<and> sublist ''4'' (incompatible_version_message 4 3)
   \<and> connect example_Connect 3 [Arrives 8] (example_Network [] [1, 0, 0, 0, 0, 0, 3, 0] [])
       = Some (Inr (3, example_Network_connecting [] []))
   \<and> connect example_Connect 3 [Arrives 8] (example_Network [] [1, 0, 0, 0, 0, 2, 0, 0] [])
       = Some (Inl (ProtocolException
                 ''libfranka gripper: protocol error during gripper connection attempt''))"
proof -
  have send: "tcpSendRequest example_Connect (udpPort (example_Network [] later []))
       (example_Network [] later []) = Inr (0, example_Network_connecting [] later)" for later
    by (simp add: tcpSendRequest_def sendBytes_def udpPort_def example_Network_connecting_def
        example_defs)
  have recv1: "tcpBlockingReceiveResponse example_Connect 0 [Arrives 8]
         (example_Network_connecting [] [1, 0, 0, 0, 0, 1, 4, 0])
       = Some (Inr (\<lparr>status = kIncompatibleLibraryVersion, version = 4\<rparr>,
                    example_Network_connecting [] []))"
    by (simp add: Let_def tcpPeekHeaderUnsafe_def tcpReceiveIntoBufferUnsafe_def poll_read_def
        available_def receiveBytes_peek_def example_Network_connecting_def example_defs)
  have recv2: "tcpBlockingReceiveResponse example_Connect 0 [Arrives 8]
         (example_Network_connecting [] [1, 0, 0, 0, 0, 0, 3, 0])
       = Some (Inr (\<lparr>status = kSuccess, version = 3\<rparr>, example_Network_connecting [] []))"
    by (simp add: Let_def tcpPeekHeaderUnsafe_def tcpReceiveIntoBufferUnsafe_def poll_read_def
        available_def receiveBytes_peek_def example_Network_connecting_def example_defs)
  have recv3: "tcpBlockingReceiveResponse example_Connect 0 [Arrives 8]
         (example_Network_connecting [] [1, 0, 0, 0, 0, 2, 0, 0])
       = Some (Inr (\<lparr>status = kOtherStatus 2, version = 0\<rparr>, example_Network_connecting [] []))"
    by (simp add: Let_def tcpPeekHeaderUnsafe_def tcpReceiveIntoBufferUnsafe_def poll_read_def
        available_def receiveBytes_peek_def example_Network_connecting_def example_defs)
  have d3: "decimal 3 = ''3''" and d4: "decimal 4 = ''4''"
    by (simp_all add: decimal.simps)
  have msg: "incompatible_version_message 4 3
       = ''libfranka: incompatible library version. '' @ [CHR 0x0A]
         @ ''Server version: 4'' @ [CHR 0x0A] @ ''Library version: 3''"
    by (simp add: incompatible_version_message_def decimal.simps)
  note o1 = connect_outcomes [OF send recv1, of 3]
  note o2 = connect_outcomes [OF send recv2, of 3]
  note o3 = connect_outcomes [OF send recv3, of 3]
  have c1: "connect example_Connect 3 [Arrives 8] (example_Network [] [1, 0, 0, 0, 0, 1, 4, 0] [])
       = Some (Inl (IncompatibleVersionException (incompatible_version_message 4 3)))"
    using o1 by simp
  have sub3: "sublist ''3'' (incompatible_version_message 4 3)"
    using o1 by (simp add: d3)
  have sub4: "sublist ''4'' (incompatible_version_message 4 3)"
    using o1 by (simp add: d4)
  have c2: "connect example_Connect 3 [Arrives 8] (example_Network [] [1, 0, 0, 0, 0, 0, 3, 0] [])
       = Some (Inr (3, example_Network_connecting [] []))"
    using o2 by simp
  have c3: "connect example_Connect 3 [Arrives 8] (example_Network [] [1, 0, 0, 0, 0, 2, 0, 0] [])
       = Some (Inl (ProtocolException
                 ''libfranka gripper: protocol error during gripper connection attempt''))"
    using o3 by simp
  show ?thesis
    by (intro conjI) (rule send recv1 c1 msg sub3 sub4 c2 c3)+
qed

text \<open>
  Claim C8. With the request type of the connect command as the spec describes it, what
  \<open>connect\<close> writes to the reliable channel is one frame: the header, and the request with
  the protocol version of the command and the port of the UDP socket of this network.
  That holds for the send on its own, and a \<open>connect\<close> that returns has written nothing
  else.
\<close>

theorem connect_request_fields:
  assumes ctor: "Request_ctor T = Connect_Request_ctor kVersion"
  shows
    "(\<forall>ri_version net'.
        connect T kLibraryVersion evs network = Some (Inr (ri_version, net')) \<longrightarrow>
        tx (net_tcp_socket net') =
          tx (net_tcp_socket network)
          @ to_bytes (Header T) \<lparr>command = kCommand T, command_id = net_command_id network\<rparr>
          @ to_bytes (Request T)
              \<lparr>request_version = kVersion, request_udp_port = net_udp_port network\<rparr>)
     \<and> (\<forall>cid net1.
          tcpSendRequest T (udpPort network) network = Inr (cid, net1) \<longrightarrow>
          tx (net_tcp_socket net1) =
            tx (net_tcp_socket network)
            @ to_bytes (Header T) \<lparr>command = kCommand T, command_id = net_command_id network\<rparr>
            @ to_bytes (Request T)
                \<lparr>request_version = kVersion, request_udp_port = net_udp_port network\<rparr>)"
proof -
  have sent: "tx (net_tcp_socket net1) =
            tx (net_tcp_socket network)
            @ to_bytes (Header T) \<lparr>command = kCommand T, command_id = net_command_id network\<rparr>
            @ to_bytes (Request T)
                \<lparr>request_version = kVersion, request_udp_port = net_udp_port network\<rparr>"
    if "tcpSendRequest T (udpPort network) network = Inr (cid, net1)" for cid net1
    using that by (simp add: tcpSendRequest_Inr_iff ctor Connect_Request_ctor_def udpPort_def)
  have whole_run: "tx (net_tcp_socket net') =
          tx (net_tcp_socket network)
          @ to_bytes (Header T) \<lparr>command = kCommand T, command_id = net_command_id network\<rparr>
          @ to_bytes (Request T)
              \<lparr>request_version = kVersion, request_udp_port = net_udp_port network\<rparr>"
    if run: "connect T kLibraryVersion evs network = Some (Inr (ri_version, net'))"
    for ri_version net'
  proof -
    from run obtain cid net1 connect_response where
      s: "tcpSendRequest T (udpPort network) network = Inr (cid, net1)"
      and r: "tcpBlockingReceiveResponse T cid evs net1 = Some (Inr (connect_response, net'))"
      by (rule connect_Inr)
    from tcpBlockingReceiveResponse_tx [OF r] sent [OF s] show ?thesis by simp
  qed
  from sent whole_run show ?thesis by blast
qed

theorem connect_request_fields_witness:
  "Request_ctor example_Connect = Connect_Request_ctor 3
   \<and> connect example_Connect 3 [Arrives 8] (example_Network [] [1, 0, 0, 0, 0, 0, 3, 0] [])
       = Some (Inr (3, example_Network_connecting [] []))
   \<and> tx (net_tcp_socket (example_Network_connecting [] []))
       = [1, 0, 0, 0, 0] @ [3, 0, 0x88, 0x13]
   \<and> to_bytes (Request example_Connect) \<lparr>request_version = 3, request_udp_port = 5000\<rparr>
       = [3, 0, 0x88, 0x13]
   \<and> from_bytes (Request example_Connect) [3, 0, 0x88, 0x13]
       = \<lparr>request_version = 3, request_udp_port = 5000\<rparr>"
proof -
  have ctor: "Request_ctor example_Connect = Connect_Request_ctor 3"
    by (simp add: example_Connect_def)
  have run: "connect example_Connect 3 [Arrives 8] (example_Network [] [1, 0, 0, 0, 0, 0, 3, 0] [])
       = Some (Inr (3, example_Network_connecting [] []))"
    by (simp add: connect_def tcpSendRequest_def sendBytes_def udpPort_def Let_def
        tcpPeekHeaderUnsafe_def tcpReceiveIntoBufferUnsafe_def poll_read_def
        available_def receiveBytes_peek_def example_Network_connecting_def example_defs)
  from connect_request_fields [OF ctor, of 3 "[Arrives 8]"
      "example_Network [] [1, 0, 0, 0, 0, 0, 3, 0] []", THEN conjunct1, rule_format, OF run]
  have "tx (net_tcp_socket (example_Network_connecting [] []))
       = [1, 0, 0, 0, 0] @ [3, 0, 0x88, 0x13]"
    by (simp add: example_defs)
  moreover have "to_bytes (Request example_Connect) \<lparr>request_version = 3, request_udp_port = 5000\<rparr>
       = [3, 0, 0x88, 0x13]"
    "from_bytes (Request example_Connect) [3, 0, 0x88, 0x13]
       = \<lparr>request_version = 3, request_udp_port = 5000\<rparr>"
    by (simp_all add: example_defs)
  ultimately show ?thesis using ctor run by blast
qed

section \<open>The library downloader\<close>

lemma LibraryDownloader_short_read:
  assumes "tcpSendRequest T (kX64, kLinux) network = Inr (cid, net1)"
    and "tcpBlockingReceiveResponse T cid evs net1 = Some (Inr (response, net2))"
    and "load_status response = LoadModelLibrary_kSuccess"
    and "length (rx (net_tcp_socket net2) @ incoming (net_tcp_socket net2))
           < unat (scast (load_size response) :: 64 word)"
  shows "LibraryDownloader T evs network disk
           = Some (Inl (ModelException ''libfranka: Cannot save model library.''))"
  using assms
  by (simp add: LibraryDownloader_def tcpReceiveIntoBuffer_def tcpReceiveIntoBufferUnsafe_def
      Let_def)

lemma LibraryDownloader_storage_failure:
  assumes "tcpSendRequest T (kX64, kLinux) network = Inr (cid, net1)"
    and "tcpBlockingReceiveResponse T cid evs net1 = Some (Inr (response, net2))"
    and "load_status response = LoadModelLibrary_kSuccess"
    and "unat (scast (load_size response) :: 64 word)
           \<le> length (rx (net_tcp_socket net2) @ incoming (net_tcp_socket net2))"
    and "\<not> writable disk"
  shows "\<exists>net3. LibraryDownloader T evs network disk = Some (Inr (net3, disk))"
  using assms
  by (simp add: LibraryDownloader_def tcpReceiveIntoBuffer_def tcpReceiveIntoBufferUnsafe_def
      Let_def ofstream_write_def)

lemma LibraryDownloader_send_failure:
  assumes "send_fault (net_tcp_socket network) = Some e"
  shows "LibraryDownloader T evs network disk
           = Some (Inl (NetworkException (''libfranka: TCP send bytes: '' @ what e)))"
  using assms by (simp add: LibraryDownloader_def tcpSendRequest_def sendBytes_def)

text \<open>The cast of the size to \<open>int\<close> and on to \<open>size_t\<close> keeps a size below \<open>2^31\<close>.\<close>

lemma read_size_below_2_31:
  fixes w :: "32 word"
  assumes "unat w < 2 ^ 31"
  shows "unat (scast w :: 64 word) = unat w"
proof -
  have "int (unat w) < int (2 ^ 31)"
    using assms by (simp only: of_nat_less_iff)
  then have u: "uint w < 2 ^ 31" by simp
  have "- (2 ^ 31 :: int) \<le> 0" by simp
  also have "0 \<le> uint w" by simp
  finally have "signed_take_bit 31 (uint w) = uint w"
    using u by (rule signed_take_bit_int_eq_self)
  then have s: "sint w = uint w"
    by (simp add: sint_uint)
  have c: "(scast w :: 64 word) = ucast w"
    by (simp add: scast_eq s)
  have "uint (ucast w :: 64 word) = uint w"
    by (rule uint_up_ucast) (simp add: is_up)
  then have "uint (scast w :: 64 word) = uint w"
    by (simp only: c)
  then have "int (unat (scast w :: 64 word)) = int (unat w)"
    by (simp only: uint_nat)
  then show ?thesis
    by (simp only: int_int_eq)
qed

lemma LibraryDownloader_stores_payload:
  assumes "tcpSendRequest T (kX64, kLinux) network = Inr (cid, net1)"
    and "tcpBlockingReceiveResponse T cid evs net1 = Some (Inr (response, net2))"
    and "load_status response = LoadModelLibrary_kSuccess"
    and "unat (load_size response) < 2 ^ 31"
    and "unat (load_size response)
           \<le> length (rx (net_tcp_socket net2) @ incoming (net_tcp_socket net2))"
    and "writable disk"
  shows "\<exists>net3. LibraryDownloader T evs network disk =
           Some (Inr (net3, disk\<lparr>file_content :=
             Some (take (unat (load_size response))
                     (rx (net_tcp_socket net2) @ incoming (net_tcp_socket net2)))\<rparr>))"
proof -
  have n: "unat (scast (load_size response) :: 64 word) = unat (load_size response)"
    using assms(4) by (rule read_size_below_2_31)
  show ?thesis
    using assms(1-3,5,6)
    by (simp add: LibraryDownloader_def tcpReceiveIntoBuffer_def tcpReceiveIntoBufferUnsafe_def
        Let_def ofstream_write_def n del: take_append)
qed

text \<open>
  Claim C5 fails on the code: the \<open>try\<close> block holds the read of the declared bytes as well
  as the write to the file, and its handler turns every exception into "Cannot save model
  library". The server declares 1024 bytes and the connection ends after 500: the
  exception is the \<open>ModelException\<close> of a storage failure, not a network failure.
\<close>

theorem LibraryDownloader_connection_lost:
  "LibraryDownloader example_LoadModelLibrary [Arrives 10]
     (example_Network [] ([2, 0, 0, 0, 0, 0, 0, 4, 0, 0] @ replicate 500 0) [])
     \<lparr>writable = True, file_content = None\<rparr>
   = Some (Inl (ModelException ''libfranka: Cannot save model library.''))"
proof -
  let ?net = "example_Network [] ([2, 0, 0, 0, 0, 0, 0, 4, 0, 0] @ replicate 500 0) []"
  let ?net1 = "\<lparr>net_tcp_socket =
        \<lparr>rx = [], incoming = [2, 0, 0, 0, 0, 0, 0, 4, 0, 0] @ replicate 500 0,
         tx = [2, 0, 0, 0, 0, 0, 0], send_fault = None\<rparr>,
      net_udp_socket = example_udp [], net_udp_port = 5000, net_command_id = 1\<rparr>"
  let ?net2 = "\<lparr>net_tcp_socket =
        \<lparr>rx = [], incoming = replicate 500 0,
         tx = [2, 0, 0, 0, 0, 0, 0], send_fault = None\<rparr>,
      net_udp_socket = example_udp [], net_udp_port = 5000, net_command_id = 1\<rparr>"
  have send: "tcpSendRequest example_LoadModelLibrary (kX64, kLinux) ?net = Inr (0, ?net1)"
    by (simp add: tcpSendRequest_def sendBytes_def example_LoadModelLibrary_def
        example_LoadModelLibrary_Request_def example_defs)
  have recv: "tcpBlockingReceiveResponse example_LoadModelLibrary 0 [Arrives 10] ?net1
      = Some (Inr (\<lparr>load_status = LoadModelLibrary_kSuccess, load_size = 1024\<rparr>, ?net2))"
    by (simp add: Let_def tcpPeekHeaderUnsafe_def tcpReceiveIntoBufferUnsafe_def poll_read_def
        available_def receiveBytes_peek_def example_LoadModelLibrary_def
        example_LoadModelLibrary_Response_def example_defs)
  show ?thesis
    by (rule LibraryDownloader_short_read [OF send recv]) simp_all
qed

end
